(* ===== verification/Prelude.thy ===== *)
theory Prelude
  imports Main
begin

text \<open>
  Shared vocabulary of the development: the JavaScript string and array primitives that
  \<^verbatim>\<open>src/lib/passport-tequila/strategy.js\<close> calls (\<open>String.prototype.split\<close> with a
  one-character separator, \<open>Array.prototype.join\<close>, \<open>Array.prototype.splice(i, 1)\<close>,
  \<open>indexOf\<close>) and JavaScript truthiness of the values the code tests with \<open>if (x)\<close>.
  A JavaScript string is a \<open>string\<close> (a list of characters); \<open>undefined\<close> is \<open>None\<close>.
  The lemmas here are the ones every component proof shares: the split/join round trips
  and the shape of the pieces a split produces.
\<close>

named_theorems js_string \<open>characteristic equations of the JavaScript string primitives\<close>

type_synonym js_string = string

subsection \<open>\<open>String.prototype.split\<close> and \<open>Array.prototype.join\<close>\<close>

text \<open>
  \<open>s.split(c)\<close> for a one-character separator \<open>c\<close>: the maximal pieces between
  occurrences of \<open>c\<close>, always at least one (\<open>"".split("?")\<close> is \<open>[""]\<close>).
\<close>

fun js_split :: "char \<Rightarrow> js_string \<Rightarrow> js_string list" where
  "js_split c [] = [[]]"
| "js_split c (x # xs) =
     (if x = c then [] # js_split c xs
      else (case js_split c xs of [] \<Rightarrow> [[x]] | w # ws \<Rightarrow> (x # w) # ws))"

text \<open>\<open>ws.join(c)\<close>: the pieces with \<open>c\<close> between neighbours; \<open>[].join(c)\<close> is \<open>""\<close>.\<close>

fun js_join :: "char \<Rightarrow> js_string list \<Rightarrow> js_string" where
  "js_join c [] = []"
| "js_join c [w] = w"
| "js_join c (w # v # ws) = w @ c # js_join c (v # ws)"

text \<open>\<open>xs.splice(i, 1)\<close> for an index in range: the element at \<open>i\<close> removed in place.\<close>

definition js_splice1 :: "nat \<Rightarrow> 'a list \<Rightarrow> 'a list" where
  "js_splice1 i xs = take i xs @ drop (Suc i) xs"

text \<open>\<open>if (v)\<close> on a value that is a string or \<open>undefined\<close>: \<open>""\<close> and \<open>undefined\<close> are falsy.\<close>

fun js_truthy_str :: "js_string option \<Rightarrow> bool" where
  "js_truthy_str None = False"
| "js_truthy_str (Some s) = (s \<noteq> [])"

text \<open>
  Case-insensitive comparison of a JavaScript regular expression (flag \<open>i\<close>) folds the
  ASCII letters; no other character of a byte string folds to one of them.
\<close>

definition to_lower_ascii :: "char \<Rightarrow> char" where
  "to_lower_ascii c =
     (case map_of (zip ''ABCDEFGHIJKLMNOPQRSTUVWXYZ'' ''abcdefghijklmnopqrstuvwxyz'') c of
        Some d \<Rightarrow> d | None \<Rightarrow> c)"

subsection \<open>Lemmas on split and join\<close>

lemma js_split_not_Nil [simp]: "js_split c s \<noteq> []"
  by (induction s) (auto split: list.splits)

lemma js_split_Cons_sep [simp, js_string]: "js_split c (c # xs) = [] # js_split c xs"
  by simp

lemma js_split_Cons_other [js_string]:
  "x \<noteq> c \<Longrightarrow> js_split c (x # xs) = (x # hd (js_split c xs)) # tl (js_split c xs)"
  by (cases "js_split c xs") auto

lemma js_split_no_sep [simp, js_string]: "c \<notin> set s \<Longrightarrow> js_split c s = [s]"
  by (induction s) auto

lemma js_split_append_sep [js_string]:
  "c \<notin> set xs \<Longrightarrow> js_split c (xs @ c # ys) = xs # js_split c ys"
  by (induction xs) (auto simp: js_split_Cons_other)

lemma js_split_pieces_no_sep: "w \<in> set (js_split c s) \<Longrightarrow> c \<notin> set w"
proof (induction s arbitrary: w)
  case Nil
  then show ?case by simp
next
  case (Cons x xs)
  then show ?case
    by (cases "x = c") (auto simp: js_split.simps(2) split: list.splits)
qed

lemma js_split_pieces_subset: "w \<in> set (js_split c s) \<Longrightarrow> set w \<subseteq> set s"
proof (induction s arbitrary: w)
  case Nil
  then show ?case by simp
next
  case (Cons x xs)
  then show ?case
    by (cases "x = c") (fastforce simp: js_split.simps(2) split: list.splits)+
qed

lemma hd_js_split [js_string]: "hd (js_split c s) = takeWhile (\<lambda>x. x \<noteq> c) s"
  by (induction s) (auto split: list.splits)

lemma js_join_Cons [js_string]:
  "js_join c (w # ws) = (if ws = [] then w else w @ c # js_join c ws)"
  by (cases ws) auto

lemma js_join_split [js_string]: "js_join c (js_split c s) = s"
proof (induction s)
  case Nil
  then show ?case by simp
next
  case (Cons x xs)
  show ?case
  proof (cases "x = c")
    case True
    with Cons.IH show ?thesis by (simp add: js_join_Cons)
  next
    case False
    obtain w ws where S: "js_split c xs = w # ws"
      by (cases "js_split c xs") auto
    with Cons.IH have "js_join c (w # ws) = xs" by simp
    with False S show ?thesis
      by (simp add: js_join_Cons split: if_splits)
  qed
qed

lemma js_split_join [js_string]:
  "ws \<noteq> [] \<Longrightarrow> (\<forall>w \<in> set ws. c \<notin> set w) \<Longrightarrow> js_split c (js_join c ws) = ws"
proof (induction ws)
  case Nil
  then show ?case by simp
next
  case (Cons w ws)
  then show ?case
    by (cases ws) (auto simp: js_split_append_sep)
qed

lemma set_js_join_sub: "set (js_join c ws) \<subseteq> insert c (\<Union>w \<in> set ws. set w)"
  by (induction c ws rule: js_join.induct) auto

lemma js_join_no_char: "x \<noteq> c \<Longrightarrow> (\<forall>w \<in> set ws. x \<notin> set w) \<Longrightarrow> x \<notin> set (js_join c ws)"
  using set_js_join_sub [of c ws] by blast

lemma length_js_join:
  "ws \<noteq> [] \<Longrightarrow> Suc (length (js_join c ws)) = sum_list (map length ws) + length ws"
  by (induction c ws rule: js_join.induct) auto

lemma length_js_join_filter: "length (js_join c (filter P ws)) \<le> length (js_join c ws)"
proof (cases "filter P ws = []")
  case True
  then show ?thesis by simp
next
  case False
  then have ws: "ws \<noteq> []" by auto
  have "sum_list (map length (filter P ws)) \<le> sum_list (map length ws)"
    by (induction ws) auto
  moreover have "length (filter P ws) \<le> length ws" by (rule length_filter_le)
  ultimately show ?thesis
    using length_js_join [OF False, of c] length_js_join [OF ws, of c] by linarith
qed

lemma length_js_split_ge2: "c \<in> set s \<Longrightarrow> Suc (Suc 0) \<le> length (js_split c s)"
proof (induction s)
  case Nil
  then show ?case by simp
next
  case (Cons x xs)
  then show ?case
    by (cases "x = c") (auto simp: Suc_le_eq split: list.splits)
qed

subsection \<open>Lemmas on splice\<close>

lemma js_splice1_nth_less [simp]:
  "j < i \<Longrightarrow> i < length xs \<Longrightarrow> js_splice1 i xs ! j = xs ! j"
  by (simp add: js_splice1_def nth_append)

lemma length_js_splice1 [simp]:
  "i < length xs \<Longrightarrow> length (js_splice1 i xs) = length xs - 1"
  by (auto simp: js_splice1_def)

lemma take_js_splice1 [simp]: "take i (js_splice1 i xs) = take i xs"
  by (cases "i \<le> length xs") (simp_all add: js_splice1_def)

lemma drop_js_splice1 [simp]: "drop i (js_splice1 i xs) = drop (Suc i) xs"
  by (cases "i \<le> length xs") (simp_all add: js_splice1_def)

end
