(* ===== verification/UserMapper.thy ===== *)
theory UserMapper
  imports Prelude
begin

text \<open>
  The user mapper: \<open>teqResult2User(result)\<close> of \<^verbatim>\<open>src/lib/passport-tequila/strategy.js\<close>
  (lines 87--115), which turns the attribute dictionary returned by the identity server into
  the Passport-style profile the gate stores in the session.
  The dictionary is a JavaScript object with string keys and values: an association list
  (\<open>Object.keys\<close> is \<open>map fst\<close>, \<open>result[k]\<close> is \<open>map_of result k\<close>, a missing key is
  \<open>undefined\<close>, \<open>None\<close>). The profile is a record whose absent properties are \<open>None\<close>;
  the nested \<open>name\<close> and \<open>tequila\<close> objects are created lazily, exactly when the code's
  \<open>if (! user.name) user.name = {}\<close> and \<open>if (! user.tequila) user.tequila = {}\<close> create
  them. The lemmas give every field of the result, prove that the \<open>tequila\<close> sub-record is
  a verbatim copy of the dictionary, and that every profile the mapper builds satisfies
  \<open>user_wf\<close>, the consistency invariant the gate keeps for the session.
\<close>

type_synonym tequila_result = "(js_string \<times> js_string) list"

record tequila_name =
  familyName :: "js_string option"
  givenName :: "js_string option"

text \<open>The field \<open>id\<close> of the profile is \<open>user_id\<close> here (\<open>id\<close> is a HOL constant).\<close>

record tequila_user =
  provider :: js_string
  user_id :: "js_string option"
  displayName :: "js_string option"
  name :: "tequila_name option"
  tequila :: "(js_string \<rightharpoonup> js_string) option"

text \<open>\<open>if (! user.name) user.name = {};\<close> followed by a read of \<open>user.name\<close>.\<close>

definition user_name_obj :: "tequila_user \<Rightarrow> tequila_name" where
  "user_name_obj u = (case name u of None \<Rightarrow> \<lparr>familyName = None, givenName = None\<rparr> | Some n \<Rightarrow> n)"

text \<open>\<open>if (! user.tequila) user.tequila = {};\<close> followed by a read of \<open>user.tequila\<close>.\<close>

definition user_tequila_obj :: "tequila_user \<Rightarrow> (js_string \<rightharpoonup> js_string)" where
  "user_tequila_obj u = (case tequila u of None \<Rightarrow> Map.empty | Some m \<Rightarrow> m)"

text \<open>
  \<open>Object.keys(result).forEach(function (k) { ...; user.tequila[k] = result[k]; })\<close>
\<close>

fun copy_attrs :: "tequila_result \<Rightarrow> js_string list \<Rightarrow> tequila_user \<Rightarrow> tequila_user" where
  "copy_attrs result [] user = user"
| "copy_attrs result (k # ks) user =
     copy_attrs result ks (user\<lparr>tequila := Some ((user_tequila_obj user)(k := map_of result k))\<rparr>)"

definition teqResult2User :: "tequila_result \<Rightarrow> tequila_user" where
  "teqResult2User result =
     (let user0 = \<lparr>provider = ''tequila'', user_id = map_of result ''user'',
                   displayName = None, name = None, tequila = None\<rparr>;
          user1 = (if js_truthy_str (map_of result ''displayname'')
                   then user0\<lparr>displayName := map_of result ''displayname''\<rparr> else user0);
          user2 = (if js_truthy_str (map_of result ''name'')
                   then user1\<lparr>name := Some ((user_name_obj user1)\<lparr>familyName := map_of result ''name''\<rparr>)\<rparr>
                   else user1);
          user3 = (if js_truthy_str (map_of result ''firstname'')
                   then user2\<lparr>name := Some ((user_name_obj user2)\<lparr>givenName := map_of result ''firstname''\<rparr>)\<rparr>
                   else user2)
      in copy_attrs result (map fst result) user3)"

text \<open>
  The consistency of a profile with its own verbatim attribute copy: the provider is
  \<open>tequila\<close>, the \<open>id\<close> is the \<open>user\<close> attribute, and the typed fields are present exactly
  when the corresponding attribute is truthy, with its value.
\<close>

definition truthy_attr :: "(js_string \<rightharpoonup> js_string) \<Rightarrow> js_string \<Rightarrow> js_string option" where
  "truthy_attr m k = (if js_truthy_str (m k) then m k else None)"

definition user_wf :: "tequila_user \<Rightarrow> bool" where
  "user_wf u =
     (let attrs = user_tequila_obj u in
      provider u = ''tequila''
      \<and> user_id u = attrs ''user''
      \<and> displayName u = truthy_attr attrs ''displayname''
      \<and> name u = (if js_truthy_str (attrs ''name'') then
                    Some \<lparr>familyName = attrs ''name'', givenName = truthy_attr attrs ''firstname''\<rparr>
                  else if js_truthy_str (attrs ''firstname'') then
                    Some \<lparr>familyName = None, givenName = attrs ''firstname''\<rparr>
                  else None))"

subsection \<open>The mapper field by field\<close>

lemma copy_attrs_frame [simp]:
  "provider (copy_attrs r ks u) = provider u"
  "user_id (copy_attrs r ks u) = user_id u"
  "displayName (copy_attrs r ks u) = displayName u"
  "name (copy_attrs r ks u) = name u"
  by (induction ks arbitrary: u) auto

lemma tequila_copy_attrs:
  "tequila (copy_attrs r ks u) =
     (if ks = [] then tequila u
      else Some (\<lambda>k. if k \<in> set ks then map_of r k else user_tequila_obj u k))"
proof (induction ks arbitrary: u)
  case Nil
  then show ?case by simp
next
  case (Cons k ks)
  then show ?case
    by (auto simp: user_tequila_obj_def fun_eq_iff)
qed

lemma map_of_keys_restrict:
  "(\<lambda>k. if k \<in> fst ` set r then map_of r k else None) = map_of r"
proof (rule ext)
  fix k
  show "(if k \<in> fst ` set r then map_of r k else None) = map_of r k"
  proof (cases "k \<in> fst ` set r")
    case False
    then have "map_of r k = None" by (simp add: map_of_eq_None_iff)
    with False show ?thesis by simp
  qed simp
qed

lemma teqResult2User_copy:
  "teqResult2User r = copy_attrs r (map fst r) \<lparr>provider = ''tequila'', user_id = map_of r ''user'',
     displayName = truthy_attr (map_of r) ''displayname'',
     name = (if js_truthy_str (map_of r ''name'') then
               Some \<lparr>familyName = map_of r ''name'', givenName = truthy_attr (map_of r) ''firstname''\<rparr>
             else if js_truthy_str (map_of r ''firstname'') then
               Some \<lparr>familyName = None, givenName = map_of r ''firstname''\<rparr>
             else None), tequila = None\<rparr>"
  by (simp add: teqResult2User_def truthy_attr_def user_name_obj_def Let_def)

lemma tequila_copy_all_attrs:
  "tequila u = None \<Longrightarrow>
   tequila (copy_attrs r (map fst r) u) = (if r = [] then None else Some (map_of r))"
proof -
  assume none: "tequila u = None"
  then have e: "\<And>k. user_tequila_obj u k = None" by (simp add: user_tequila_obj_def)
  have "(\<lambda>k. if k \<in> fst ` set r then map_of r k else user_tequila_obj u k) = map_of r"
    unfolding e by (rule map_of_keys_restrict)
  then show ?thesis using none by (simp add: tequila_copy_attrs)
qed

lemma teqResult2User_tequila:
  "tequila (teqResult2User r) = (if r = [] then None else Some (map_of r))"
  by (simp add: teqResult2User_copy tequila_copy_all_attrs)

lemma user_tequila_obj_teqResult2User: "user_tequila_obj (teqResult2User r) = map_of r"
  by (simp add: user_tequila_obj_def teqResult2User_tequila)

lemma user_wf_teqResult2User: "user_wf (teqResult2User r)"
  unfolding user_wf_def Let_def user_tequila_obj_teqResult2User
  by (simp add: teqResult2User_copy)

subsection \<open>Properties\<close>

text \<open>
  C8 (functional). The profile keeps a lossless copy of the dictionary: for a result with
  unique keys, as a JavaScript object has, the \<open>tequila\<close> sub-record exists exactly when
  the result is non-empty and maps each key to its value and nothing else.
\<close>

theorem teqResult2User_verbatim:
  assumes "distinct (map fst r)"
  shows "\<exists>m. tequila (teqResult2User r) = (if r = [] then None else Some m)
             \<and> (\<forall>k v. m k = Some v \<longleftrightarrow> (k, v) \<in> set r)"
proof -
  have "\<forall>k v. map_of r k = Some v \<longleftrightarrow> (k, v) \<in> set r"
    using assms by (auto intro: map_of_is_SomeI dest: map_of_SomeD)
  then show ?thesis by (auto simp: teqResult2User_tequila)
qed

theorem teqResult2User_verbatim_witness:
  "distinct (map fst [(''user'', ''lecom''), (''firstname'', ''Claude'')])
   \<and> (\<exists>m. tequila (teqResult2User [(''user'', ''lecom''), (''firstname'', ''Claude'')]) = Some m
          \<and> m ''user'' = Some ''lecom'' \<and> m ''firstname'' = Some ''Claude'')"
proof -
  let ?r = "[(''user'', ''lecom''), (''firstname'', ''Claude'')]"
  have d: "distinct (map fst ?r)" by simp
  obtain m where m: "tequila (teqResult2User ?r) = (if ?r = [] then None else Some m)"
    and mv: "\<forall>k v. m k = Some v \<longleftrightarrow> (k, v) \<in> set ?r"
    using teqResult2User_verbatim [OF d] by blast
  from mv have "m ''user'' = Some ''lecom''" and "m ''firstname'' = Some ''Claude''"
    by simp_all
  with d m show ?thesis by auto
qed

text \<open>
  C9 (functional). The typed fields of the profile: the provider is \<open>tequila\<close>, the
  \<open>id\<close> is the \<open>user\<close> attribute, \<open>displayName\<close> and \<open>name\<close> are set only from
  truthy attributes (an absent or empty attribute leaves them unset), and the \<open>name\<close>
  sub-record exists exactly when \<open>name\<close> or \<open>firstname\<close> is truthy.
\<close>

theorem teqResult2User_fields:
  "provider (teqResult2User r) = ''tequila''
   \<and> user_id (teqResult2User r) = map_of r ''user''
   \<and> displayName (teqResult2User r) = truthy_attr (map_of r) ''displayname''
   \<and> name (teqResult2User r) =
       (if js_truthy_str (map_of r ''name'') then
          Some \<lparr>familyName = map_of r ''name'', givenName = truthy_attr (map_of r) ''firstname''\<rparr>
        else if js_truthy_str (map_of r ''firstname'') then
          Some \<lparr>familyName = None, givenName = map_of r ''firstname''\<rparr>
        else None)"
  by (simp add: teqResult2User_copy)

end
