(* ===== verification/Protocol.thy ===== *)
theory Protocol
  imports UserMapper
begin

text \<open>
  The protocol client and its configuration. \<open>TequilaStrategy(opts)\<close> of
  \<^verbatim>\<open>src/lib/passport-tequila/strategy.js\<close> (lines 30--41) builds a \<open>Protocol\<close> object
  and copies the options into it (the options as a record, and as the JavaScript object
  they are read from, \<open>opts_of_object\<close>); \<open>protocol.js\<close>, which implements the four remote
  operations, is not among the sources, so its defaults and the URLs it redirects to are
  modelled from the specification (sections 4.1 and 6) and marked so in the manifest.
  The remote answers themselves (the identity server's replies, Passport's \<open>req.login\<close>)
  are not computed by this program: they are the fields of \<open>gate_env\<close>, the interface
  through which the gate of theory \<open>Gate\<close> receives them, so that every lemma about the
  gate holds for every behaviour of the server.
\<close>

subsection \<open>Options and the protocol object\<close>

text \<open>
  \<open>opts\<close> of the constructor: every option may be \<open>undefined\<close> (\<open>None\<close>).
  \<open>redirectAfterAuth\<close> is only tested for truthiness, so it is a \<open>bool\<close>.
\<close>

record strategy_opts =
  opt_service :: "js_string option"
  opt_request :: "js_string list option"
  opt_require :: "js_string option"
  opt_allows :: "js_string option"
  opt_redirectAfterAuth :: bool
  opt_tequila_host :: "js_string option"
  opt_tequila_port :: "nat option"
  opt_tequila_createrequest_path :: "js_string option"
  opt_tequila_requestauth_path :: "js_string option"
  opt_tequila_fetchattributes_path :: "js_string option"
  opt_tequila_logout_path :: "js_string option"

text \<open>\<open>if (! opts) opts = {};\<close>: the empty options object.\<close>

definition no_opts :: strategy_opts where
  "no_opts = \<lparr>opt_service = None, opt_request = None, opt_require = None, opt_allows = None,
     opt_redirectAfterAuth = False, opt_tequila_host = None, opt_tequila_port = None,
     opt_tequila_createrequest_path = None, opt_tequila_requestauth_path = None,
     opt_tequila_fetchattributes_path = None, opt_tequila_logout_path = None\<rparr>"

record protocol =
  service :: js_string
  request :: "js_string list option"
  require :: "js_string option"
  allows :: "js_string option"
  tequila_host :: js_string
  tequila_port :: nat
  tequila_createrequest_path :: js_string
  tequila_requestauth_path :: js_string
  tequila_fetchattributes_path :: js_string
  tequila_logout_path :: js_string

text \<open>
  \<open>new Protocol()\<close>: the identity server's standard host, port and endpoint paths
  (specification section 6: the paths are configuration, with defaults).
\<close>

definition new_Protocol :: protocol where
  "new_Protocol = \<lparr>service = [], request = None, require = None, allows = None,
     tequila_host = ''tequila.epfl.ch'', tequila_port = 443,
     tequila_createrequest_path = ''/cgi-bin/tequila/createrequest'',
     tequila_requestauth_path = ''/cgi-bin/tequila/requestauth'',
     tequila_fetchattributes_path = ''/cgi-bin/tequila/fetchattributes'',
     tequila_logout_path = ''/cgi-bin/tequila/logout''\<rparr>"

text \<open>\<open>a || b\<close> on a string option, and \<open>if (opts[k]) protocol[k] = opts[k]\<close>.\<close>

fun js_or :: "js_string option \<Rightarrow> js_string \<Rightarrow> js_string" where
  "js_or None d = d"
| "js_or (Some s) d = (if s \<noteq> [] then s else d)"

fun js_or_nat :: "nat option \<Rightarrow> nat \<Rightarrow> nat" where
  "js_or_nat None d = d"
| "js_or_nat (Some n) d = (if n \<noteq> 0 then n else d)"

text \<open>The strategy object: its protocol and the options its closures capture.\<close>

record tequila_strategy =
  st_protocol :: protocol
  st_opts :: strategy_opts

definition TequilaStrategy :: "strategy_opts option \<Rightarrow> tequila_strategy" where
  "TequilaStrategy opts0 =
     (let opts = (case opts0 of None \<Rightarrow> no_opts | Some given \<Rightarrow> given);
          p = new_Protocol;
          p = p\<lparr>service := js_or (opt_service opts) ''Some node.js app''\<rparr>;
          p = p\<lparr>request := opt_request opts\<rparr>;
          p = p\<lparr>require := opt_require opts\<rparr>;
          p = p\<lparr>allows := opt_allows opts\<rparr>;
          p = p\<lparr>tequila_host := js_or (opt_tequila_host opts) (tequila_host p),
                tequila_port := js_or_nat (opt_tequila_port opts) (tequila_port p),
                tequila_createrequest_path :=
                  js_or (opt_tequila_createrequest_path opts) (tequila_createrequest_path p),
                tequila_requestauth_path :=
                  js_or (opt_tequila_requestauth_path opts) (tequila_requestauth_path p),
                tequila_fetchattributes_path :=
                  js_or (opt_tequila_fetchattributes_path opts) (tequila_fetchattributes_path p),
                tequila_logout_path := js_or (opt_tequila_logout_path opts) (tequila_logout_path p)\<rparr>
      in \<lparr>st_protocol = p, st_opts = opts\<rparr>)"

text \<open>
  The options object as JavaScript sees it: a dictionary from property names to values,
  read by name (\<open>opts.service\<close>, \<open>opts[k]\<close>), \<open>undefined\<close> when the property is
  missing. \<open>opts_of_object\<close> is what the constructor reads from it: the properties under
  the names the code uses, each of the type the code expects (a value of another type is
  read as absent; the record \<open>strategy_opts\<close> has no room for it).
\<close>

datatype js_value = JUndef | JStr js_string | JNum nat | JBool bool | JArr "js_string list"

type_synonym js_object = "(js_string \<times> js_value) list"

definition js_get :: "js_object \<Rightarrow> js_string \<Rightarrow> js_value" where
  "js_get obj k = (case map_of obj k of None \<Rightarrow> JUndef | Some v \<Rightarrow> v)"

fun js_truthy :: "js_value \<Rightarrow> bool" where
  "js_truthy JUndef = False"
| "js_truthy (JStr s) = (s \<noteq> [])"
| "js_truthy (JNum n) = (n \<noteq> 0)"
| "js_truthy (JBool b) = b"
| "js_truthy (JArr _) = True"

fun str_val :: "js_value \<Rightarrow> js_string option" where
  "str_val (JStr s) = Some s"
| "str_val _ = None"

fun num_val :: "js_value \<Rightarrow> nat option" where
  "num_val (JNum n) = Some n"
| "num_val _ = None"

fun arr_val :: "js_value \<Rightarrow> js_string list option" where
  "arr_val (JArr xs) = Some xs"
| "arr_val _ = None"

definition opts_of_object :: "js_object \<Rightarrow> strategy_opts" where
  "opts_of_object obj =
     \<lparr>opt_service = str_val (js_get obj ''service''),
      opt_request = arr_val (js_get obj ''request''),
      opt_require = str_val (js_get obj ''require''),
      opt_allows = str_val (js_get obj ''allows''),
      opt_redirectAfterAuth = js_truthy (js_get obj ''redirectAfterAuth''),
      opt_tequila_host = str_val (js_get obj ''tequila_host''),
      opt_tequila_port = num_val (js_get obj ''tequila_port''),
      opt_tequila_createrequest_path = str_val (js_get obj ''tequila_createrequest_path''),
      opt_tequila_requestauth_path = str_val (js_get obj ''tequila_requestauth_path''),
      opt_tequila_fetchattributes_path = str_val (js_get obj ''tequila_fetchattributes_path''),
      opt_tequila_logout_path = str_val (js_get obj ''tequila_logout_path'')\<rparr>"

subsection \<open>The remote operations (protocol.js, from the specification)\<close>

text \<open>
  The error taxonomy of specification section 7, and the one the host adds: a failure of
  Passport's \<open>req.login\<close> (the session could not be written).
\<close>

datatype tequila_error = NetworkError | ProtocolError | LoginError

text \<open>
  \<open>req.query.key\<close>: the query parser gives a string, or an array for a repeated
  parameter (\<open>?key=a&key=b\<close>); an array is always truthy.
\<close>

datatype query_value = QStr js_string | QArr "js_string list"

fun js_truthy_q :: "query_value option \<Rightarrow> bool" where
  "js_truthy_q None = False"
| "js_truthy_q (Some (QStr s)) = (s \<noteq> [])"
| "js_truthy_q (Some (QArr _)) = True"

text \<open>
  The parameters of the \<^verbatim>\<open>createrequest\<close> call (specification 4.1 and 6): the service
  name, the requested attributes as a comma-separated list, the optional filters, and the
  URL the identity server sends the browser back to with the key.
\<close>

definition createrequest_body :: "protocol \<Rightarrow> js_string \<Rightarrow> (js_string \<times> js_string) list" where
  "createrequest_body p urlaccess =
     [(''urlaccess'', urlaccess), (''service'', service p)]
     @ (case request p of None \<Rightarrow> [] | Some r \<Rightarrow> [(''request'', js_join (CHR '','') r)])
     @ (case require p of None \<Rightarrow> [] | Some r \<Rightarrow> [(''require'', r)])
     @ (case allows p of None \<Rightarrow> [] | Some a \<Rightarrow> [(''allows'', a)])"

definition tequila_base :: "protocol \<Rightarrow> js_string" where
  "tequila_base p = ''https://'' @ tequila_host p"

text \<open>\<open>requestauth(res, key)\<close>: the redirect to the interactive login with the key.\<close>

definition requestauth_url :: "protocol \<Rightarrow> js_string \<Rightarrow> js_string" where
  "requestauth_url p key = tequila_base p @ tequila_requestauth_path p @ ''?requestkey='' @ key"

text \<open>\<open>logout(req, res, url)\<close>: the redirect to the server's logout with the return URL.\<close>

definition logout_url :: "protocol \<Rightarrow> js_string \<Rightarrow> js_string" where
  "logout_url p url = tequila_base p @ tequila_logout_path p @ ''?urlaccess='' @ url"

text \<open>
  \<open>protocol.redirectUrl(req, path)\<close>: the absolute URL of a path of this application,
  on the scheme and host the request arrived at.
\<close>

definition redirectUrl :: "js_string \<Rightarrow> js_string \<Rightarrow> js_string" where
  "redirectUrl req_base path = req_base @ path"

text \<open>
  The answers the environment gives: the identity server's reply to \<^verbatim>\<open>createrequest\<close>
  (a key) and to \<^verbatim>\<open>fetchattributes\<close> for a key (the attribute dictionary), and the outcome
  of Passport's \<open>req.login\<close> for a profile (\<open>None\<close>: the session was written).
\<close>

record gate_env =
  env_createrequest :: "(js_string \<times> js_string) list \<Rightarrow> tequila_error + js_string"
  env_fetchattributes :: "query_value \<Rightarrow> tequila_error + tequila_result"
  env_login :: "tequila_user \<Rightarrow> tequila_error option"

text \<open>
  A usable protocol object: a service name to announce, a host, a port and the four
  endpoint paths, none of them empty or zero.
\<close>

definition protocol_wf :: "protocol \<Rightarrow> bool" where
  "protocol_wf p \<longleftrightarrow> service p \<noteq> [] \<and> tequila_host p \<noteq> [] \<and> tequila_port p \<noteq> 0
     \<and> tequila_createrequest_path p \<noteq> [] \<and> tequila_requestauth_path p \<noteq> []
     \<and> tequila_fetchattributes_path p \<noteq> [] \<and> tequila_logout_path p \<noteq> []"

subsection \<open>Configuration\<close>

lemma js_or_not_Nil: "d \<noteq> [] \<Longrightarrow> js_or s d \<noteq> []"
  by (cases s) auto

lemma js_or_nat_not_0: "d \<noteq> 0 \<Longrightarrow> js_or_nat n d \<noteq> 0"
  by (cases n) auto

text \<open>
  C13 (functional). The service name the strategy sends is the \<open>service\<close> option when it
  is a non-empty string and \<open>Some node.js app\<close> otherwise, so it is never empty; a missing
  service name is not an error.
\<close>

theorem TequilaStrategy_service:
  "service (st_protocol (TequilaStrategy opts)) =
     (case opts of None \<Rightarrow> ''Some node.js app''
      | Some given \<Rightarrow> js_or (opt_service given) ''Some node.js app'')
   \<and> service (st_protocol (TequilaStrategy opts)) \<noteq> []"
  by (cases opts) (simp_all add: TequilaStrategy_def no_opts_def js_or_not_Nil)

text \<open>
  C29 (type). Whatever options it is given, the constructor builds a well-formed protocol
  object: an option that is missing, empty or zero falls back to the default, and the
  defaults are well formed.
\<close>

theorem TequilaStrategy_wf: "protocol_wf (st_protocol (TequilaStrategy opts))"
  by (simp add: protocol_wf_def TequilaStrategy_def new_Protocol_def js_or_not_Nil js_or_nat_not_0
      Let_def)

text \<open>
  C33 (divergence). The specification names the connection options \<open>host\<close>, \<open>port\<close>,
  \<open>createrequest_path\<close> and so on (section 6); the constructor reads
  \<open>tequila_host\<close>, \<open>tequila_port\<close>, ... (lines 38--40). An options object without
  the prefixed names connects to the default server, whatever it says under the
  specification's names.
\<close>

theorem TequilaStrategy_spec_option_names:
  assumes "js_get obj ''tequila_host'' = JUndef" and "js_get obj ''tequila_port'' = JUndef"
  shows "tequila_host (st_protocol (TequilaStrategy (Some (opts_of_object obj)))) = ''tequila.epfl.ch''
    \<and> tequila_port (st_protocol (TequilaStrategy (Some (opts_of_object obj)))) = 443"
  using assms by (simp add: TequilaStrategy_def opts_of_object_def new_Protocol_def Let_def)

theorem TequilaStrategy_spec_option_names_witness:
  "js_get [(''host'', JStr ''idp.example.org''), (''port'', JNum 8443)] ''tequila_host'' = JUndef
   \<and> js_get [(''host'', JStr ''idp.example.org''), (''port'', JNum 8443)] ''tequila_port'' = JUndef
   \<and> tequila_host (st_protocol (TequilaStrategy (Some (opts_of_object
        [(''host'', JStr ''idp.example.org''), (''port'', JNum 8443)])))) = ''tequila.epfl.ch''"
proof -
  have h: "js_get [(''host'', JStr ''idp.example.org''), (''port'', JNum 8443)] ''tequila_host'' = JUndef"
    "js_get [(''host'', JStr ''idp.example.org''), (''port'', JNum 8443)] ''tequila_port'' = JUndef"
    by (simp_all add: js_get_def)
  show ?thesis using TequilaStrategy_spec_option_names [OF h] h by simp
qed

end
