(* ===== verification/RemoveParam.thy ===== *)
theory RemoveParam
  imports Prelude "HOL-Library.While_Combinator"
begin

text \<open>
  The redirect sanitizer: \<open>removeParam(key, sourceURL)\<close> of
  \<^verbatim>\<open>src/lib/passport-tequila/strategy.js\<close> (lines 121--144), which the gate uses to strip
  the one-time \<^verbatim>\<open>key\<close> parameter from the URL it redirects to after a successful
  handshake. The model follows the code statement by statement: the path is
  \<open>sourceURL.split("?")[0]\<close>, the query string is \<open>sourceURL.split("?")[1]\<close> (so text after
  a second \<open>?\<close> is dropped), and the loop that walks the parameters from the last index
  down to 0 and splices out the matching ones is the counting-down recursion
  \<open>strip_params\<close>. The lemmas show that the loop is a filter, give the function's
  closed form, prove that no parameter named \<open>key\<close> survives, and relate the code to
  the specification's description (split at the first \<open>?\<close>), which it refines exactly
  when the URL has at most one \<open>?\<close>.
\<close>

subsection \<open>Definitions\<close>

text \<open>\<open>params[i].split("=")[0]\<close>: the name of a \<open>name=value\<close> token.\<close>

definition param_name :: "js_string \<Rightarrow> js_string" where
  "param_name p = hd (js_split (CHR ''='') p)"

text \<open>
  \<open>for (var i = params.length - 1; i >= 0; i--) { if (...) params.splice(i, 1); }\<close>:
  \<open>strip_params key n params\<close> runs the body for \<open>i = n - 1, \<dots>, 0\<close>.
\<close>

fun strip_params :: "js_string \<Rightarrow> nat \<Rightarrow> js_string list \<Rightarrow> js_string list" where
  "strip_params key 0 params = params"
| "strip_params key (Suc i) params =
     strip_params key i
       (if param_name (params ! i) = key then js_splice1 i params else params)"

text \<open>
  The same loop as the code writes it: the state is the signed index \<open>i\<close> and the array
  \<open>params\<close>, the guard \<open>i >= 0\<close>, the body reads \<open>params[i].split("=")[0]\<close>, splices
  when it is \<open>key\<close> and decrements \<open>i\<close>; \<open>while_option\<close> is \<open>None\<close> if the loop never
  stops, so that it does stop is a theorem.
\<close>

type_synonym loop_state = "int \<times> js_string list"

definition removeParam_loop_body :: "js_string \<Rightarrow> loop_state \<Rightarrow> loop_state" where
  "removeParam_loop_body key s =
     (let (i, params) = s;
          currentParam = param_name (params ! nat i)
      in (i - 1, if currentParam = key then js_splice1 (nat i) params else params))"

definition removeParam_loop :: "js_string \<Rightarrow> js_string list \<Rightarrow> js_string list option" where
  "removeParam_loop key params =
     map_option snd
       (while_option (\<lambda>(i, _). i \<ge> 0) (removeParam_loop_body key)
          (int (length params) - 1, params))"

text \<open>
  The loop invariant: \<open>i\<close> stays in \<open>-1 .. length - 1\<close>, and what the iterations still to
  run compute from the current array is what the whole loop computes from the initial one.
\<close>

definition loop_inv :: "js_string \<Rightarrow> js_string list \<Rightarrow> loop_state \<Rightarrow> bool" where
  "loop_inv key ps0 s =
     (let (i, ps) = s in -1 \<le> i \<and> i < int (length ps0) \<and>
        strip_params key (nat (i + 1)) ps = strip_params key (length ps0) ps0 \<and>
        nat (i + 1) \<le> length ps)"

definition removeParam :: "js_string \<Rightarrow> js_string \<Rightarrow> js_string" where
  "removeParam key sourceURL =
     (let cleanedURL = hd (js_split (CHR ''?'') sourceURL);
          queryString =
            (if CHR ''?'' \<in> set sourceURL then js_split (CHR ''?'') sourceURL ! 1 else '''')
      in if queryString \<noteq> '''' then
           (let params0 = js_split (CHR ''&'') queryString;
                params = strip_params key (length params0) params0
            in cleanedURL @ (if 0 < length params then CHR ''?'' # js_join (CHR ''&'') params
                             else ''''))
         else cleanedURL)"

text \<open>
  The parameter tokens the code reads from a URL (lines 132--134): the pieces of the text
  between the first and the second \<open>?\<close>, none when that text is empty.
\<close>

definition query_params :: "js_string \<Rightarrow> js_string list" where
  "query_params u =
     (if CHR ''?'' \<in> set u then
        (let q = js_split (CHR ''?'') u ! 1 in if q = [] then [] else js_split (CHR ''&'') q)
      else [])"

text \<open>
  The specification's reading of a URL (spec section 4.4): the path before the first
  \<open>?\<close>, the query string all of the text after it, its tokens split at \<open>&\<close>.
\<close>

definition url_path :: "js_string \<Rightarrow> js_string" where
  "url_path u = takeWhile (\<lambda>c. c \<noteq> CHR ''?'') u"

definition url_query :: "js_string \<Rightarrow> js_string" where
  "url_query u = drop (Suc (length (url_path u))) u"

definition url_query_tokens :: "js_string \<Rightarrow> js_string list" where
  "url_query_tokens u = (if CHR ''?'' \<in> set u then js_split (CHR ''&'') (url_query u) else [])"

definition removeParam_spec :: "js_string \<Rightarrow> js_string \<Rightarrow> js_string" where
  "removeParam_spec key u =
     (if CHR ''?'' \<in> set u then
        (if url_query u = [] then url_path u
         else (let kept = filter (\<lambda>t. param_name t \<noteq> key) (js_split (CHR ''&'') (url_query u))
               in if kept = [] then url_path u
                  else url_path u @ CHR ''?'' # js_join (CHR ''&'') kept))
      else url_path u)"

subsection \<open>The loop is a filter; closed form\<close>

lemma strip_params_take_drop:
  "i \<le> length ps \<Longrightarrow>
   strip_params key i ps = filter (\<lambda>p. param_name p \<noteq> key) (take i ps) @ drop i ps"
proof (induction i arbitrary: ps)
  case 0
  then show ?case by simp
next
  case (Suc i)
  let ?ps' = "if param_name (ps ! i) = key then js_splice1 i ps else ps"
  have lt: "i < length ps" using Suc.prems by simp
  have "i \<le> length ?ps'" using lt by auto
  then have IH: "strip_params key i ?ps' =
      filter (\<lambda>p. param_name p \<noteq> key) (take i ?ps') @ drop i ?ps'"
    by (rule Suc.IH)
  have take_eq: "take i ?ps' = take i ps" by simp
  have drop_eq: "drop i ?ps' =
      (if param_name (ps ! i) = key then drop (Suc i) ps else ps ! i # drop (Suc i) ps)"
    using lt by (simp add: Cons_nth_drop_Suc)
  show ?case
    using IH lt by (simp only: strip_params.simps take_eq drop_eq)
      (simp add: take_Suc_conv_app_nth)
qed

lemma url_path_hd_split: "hd (js_split (CHR ''?'') u) = url_path u"
  by (simp add: url_path_def hd_js_split)

lemma removeParam_closed:
  "removeParam key u =
     (let kept = filter (\<lambda>t. param_name t \<noteq> key) (query_params u)
      in if kept = [] then url_path u else url_path u @ CHR ''?'' # js_join (CHR ''&'') kept)"
  by (auto simp: removeParam_def query_params_def url_path_hd_split Let_def
      strip_params_take_drop [of "length ps" ps for ps, simplified])

lemma query_params_tokens:
  "t \<in> set (query_params u) \<Longrightarrow> CHR ''?'' \<notin> set t \<and> CHR ''&'' \<notin> set t"
proof -
  assume t: "t \<in> set (query_params u)"
  then have q: "CHR ''?'' \<in> set u" by (simp add: query_params_def split: if_splits)
  let ?q = "js_split (CHR ''?'') u ! 1"
  from q have "1 < length (js_split (CHR ''?'') u)"
    using length_js_split_ge2 [of "CHR ''?''" u] by simp
  then have "?q \<in> set (js_split (CHR ''?'') u)" by (rule nth_mem)
  then have noq: "CHR ''?'' \<notin> set ?q" by (rule js_split_pieces_no_sep)
  from t q have tq: "t \<in> set (js_split (CHR ''&'') ?q)"
    by (simp add: query_params_def Let_def split: if_splits)
  then have "CHR ''&'' \<notin> set t" by (rule js_split_pieces_no_sep)
  moreover from tq noq have "CHR ''?'' \<notin> set t"
    using js_split_pieces_subset by blast
  ultimately show ?thesis by simp
qed

lemma url_path_no_question: "CHR ''?'' \<notin> set (url_path u)"
  by (auto simp: url_path_def dest: set_takeWhileD)

lemma url_path_query_append:
  "CHR ''?'' \<notin> set p \<Longrightarrow> url_path (p @ CHR ''?'' # r) = p \<and> url_query (p @ CHR ''?'' # r) = r"
proof -
  assume p: "CHR ''?'' \<notin> set p"
  then have "url_path (p @ CHR ''?'' # r) = p"
    by (auto simp: url_path_def takeWhile_append)
  then show ?thesis by (simp add: url_query_def)
qed

lemma url_query_tokens_removeParam:
  "url_query_tokens (removeParam key u) = filter (\<lambda>t. param_name t \<noteq> key) (query_params u)"
proof -
  let ?kept = "filter (\<lambda>t. param_name t \<noteq> key) (query_params u)"
  show ?thesis
  proof (cases "?kept = []")
    case True
    then show ?thesis
      using url_path_no_question [of u]
      by (simp add: removeParam_closed url_query_tokens_def)
  next
    case False
    have toks: "\<forall>t \<in> set ?kept. CHR ''&'' \<notin> set t"
      using query_params_tokens by auto
    have "url_query (url_path u @ CHR ''?'' # js_join (CHR ''&'') ?kept) = js_join (CHR ''&'') ?kept"
      using url_path_query_append [OF url_path_no_question] by blast
    with False toks show ?thesis
      by (simp add: removeParam_closed url_query_tokens_def js_string)
  qed
qed

lemma url_path_idem [simp]: "url_path (url_path u) = url_path u"
  by (simp add: url_path_def)

lemma url_path_removeParam: "url_path (removeParam key u) = url_path u"
  using url_path_query_append [OF url_path_no_question, of u]
  by (simp add: removeParam_closed Let_def)

lemma query_split_at_most_one:
  assumes "count_list u (CHR ''?'') \<le> 1" and "CHR ''?'' \<in> set u"
  shows "query_params u = (if url_query u = [] then [] else js_split (CHR ''&'') (url_query u))"
proof -
  obtain p r where u: "u = p @ CHR ''?'' # r" and p: "CHR ''?'' \<notin> set p"
    using split_list_first [OF assms(2)] by blast
  from assms(1) u have "CHR ''?'' \<notin> set r"
    by (auto simp: count_list_0_iff [symmetric] p)
  with u p show ?thesis
    using url_path_query_append [OF p, of r]
    by (simp add: query_params_def js_string)
qed

text \<open>
  C7 (refinement). On a URL with at most one \<open>?\<close>, the code computes exactly the
  specification's sanitizer: the path before the \<open>?\<close>, then the query tokens whose name
  is not \<open>key\<close>, in their original order, and no \<open>?\<close> when none remain.
\<close>

theorem removeParam_refines_spec:
  "count_list u (CHR ''?'') \<le> 1 \<Longrightarrow> removeParam key u = removeParam_spec key u"
proof (cases "CHR ''?'' \<in> set u")
  case True
  assume "count_list u (CHR ''?'') \<le> 1"
  with True show ?thesis
    by (simp add: removeParam_closed removeParam_spec_def query_split_at_most_one Let_def)
next
  case False
  then show ?thesis
    by (simp add: removeParam_closed removeParam_spec_def query_params_def)
qed


subsection \<open>The loop as written\<close>

lemma loop_inv_step:
  assumes "loop_inv key ps0 s" "case s of (i, _) \<Rightarrow> 0 \<le> i"
  shows "loop_inv key ps0 (removeParam_loop_body key s)"
proof -
  obtain i ps where s: "s = (i, ps)" by (cases s)
  obtain n where n: "nat (i + 1) = Suc n" "nat i = n" using assms(2) s by (intro that[of "nat i"]) auto
  show ?thesis using assms n s
    by (auto simp: loop_inv_def removeParam_loop_body_def Let_def)
qed

lemma removeParam_while_Some:
  "\<exists>t. while_option (\<lambda>(i, _). i \<ge> 0) (removeParam_loop_body key)
         (int (length params) - 1, params) = Some t"
proof (rule measure_while_option_Some [of "loop_inv key params" _ _ "\<lambda>(i, _). nat (i + 1)"], clarify)
  fix i ps
  assume "loop_inv key params (i, ps)" "0 \<le> i"
  then show "loop_inv key params (removeParam_loop_body key (i, ps)) \<and>
    (case removeParam_loop_body key (i, ps) of (i, _) \<Rightarrow> nat (i + 1)) < nat (i + 1)"
    using loop_inv_step [of key params "(i, ps)"] by (auto simp: removeParam_loop_body_def Let_def)
next
  show "loop_inv key params (int (length params) - 1, params)"
    by (simp add: loop_inv_def)
qed

lemma query_params_removeParam:
  "query_params (removeParam key u) =
     (let kept = filter (\<lambda>t. param_name t \<noteq> key) (query_params u)
      in if kept = [[]] then [] else kept)"
proof -
  let ?kept = "filter (\<lambda>t. param_name t \<noteq> key) (query_params u)"
  show ?thesis
  proof (cases "?kept = []")
    case True
    then show ?thesis
      using url_path_no_question [of u] by (simp add: removeParam_closed query_params_def)
  next
    case False
    have toks: "\<forall>t \<in> set ?kept. CHR ''&'' \<notin> set t \<and> CHR ''?'' \<notin> set t"
      using query_params_tokens by auto
    then have noq: "CHR ''?'' \<notin> set (js_join (CHR ''&'') ?kept)"
      by (intro js_join_no_char) auto
    have piece: "js_split (CHR ''?'') (url_path u @ CHR ''?'' # js_join (CHR ''&'') ?kept) ! 1
        = js_join (CHR ''&'') ?kept"
      using url_path_no_question [of u] noq by (simp add: js_split_append_sep)
    have split: "js_split (CHR ''&'') (js_join (CHR ''&'') ?kept) = ?kept"
      using False toks by (intro js_split_join) auto
    have "js_join (CHR ''&'') ?kept = [] \<longleftrightarrow> ?kept = [[]]"
    proof
      assume "js_join (CHR ''&'') ?kept = []"
      then have "js_split (CHR ''&'') [] = ?kept" using split by simp
      then show "?kept = [[]]" by simp
    next
      assume "?kept = [[]]"
      then show "js_join (CHR ''&'') ?kept = []" by (simp only:) simp
    qed
    with False piece split show ?thesis
      by (simp add: removeParam_closed query_params_def Let_def)
  qed
qed

subsection \<open>Length of the result\<close>

lemma length_query_params:
  "query_params u \<noteq> [] \<Longrightarrow>
   length (url_path u) + Suc (length (js_join (CHR ''&'') (query_params u))) \<le> length u"
proof -
  assume ne: "query_params u \<noteq> []"
  then have q: "CHR ''?'' \<in> set u" by (simp add: query_params_def split: if_splits)
  obtain p r where u: "u = p @ CHR ''?'' # r" and p: "CHR ''?'' \<notin> set p"
    using split_list_first [OF q] by blast
  have pq: "url_path u = p" using url_path_query_append [OF p, of r] u by simp
  have piece: "js_split (CHR ''?'') u ! 1 = takeWhile (\<lambda>x. x \<noteq> CHR ''?'') r"
    using u p by (simp add: js_split_append_sep hd_js_split [symmetric] hd_conv_nth)
  have "js_join (CHR ''&'') (query_params u) = takeWhile (\<lambda>x. x \<noteq> CHR ''?'') r"
    using ne q piece by (simp add: query_params_def Let_def js_join_split split: if_splits)
  then show ?thesis using u pq length_takeWhile_le [of _ r] by simp
qed

subsection \<open>Properties\<close>

text \<open>
  C5 (safety). The URL \<open>removeParam key u\<close> returns carries no query parameter named
  \<open>key\<close>, read the way the specification (and the identity server) reads a URL: all
  text after the first \<open>?\<close>, split at \<open>&\<close>.
\<close>

theorem removeParam_strips_key:
  "key \<notin> param_name ` set (url_query_tokens (removeParam key u))"
  by (auto simp: url_query_tokens_removeParam)

text \<open>
  C6 (equivalence). The backward loop with \<open>splice\<close> removes exactly the tokens named
  \<open>key\<close> and keeps the others in order: it equals \<open>filter\<close>.
\<close>

theorem strip_params_eq_filter:
  "strip_params key (length ps) ps = filter (\<lambda>p. param_name p \<noteq> key) ps"
  using strip_params_take_drop [of "length ps" ps key] by simp

theorem removeParam_refines_spec_witness:
  "count_list ''/private?key=abc&foo=bar'' (CHR ''?'') \<le> 1 \<and>
   removeParam ''key'' ''/private?key=abc&foo=bar'' =
   removeParam_spec ''key'' ''/private?key=abc&foo=bar''"
  using removeParam_refines_spec [of "''/private?key=abc&foo=bar''" "''key''"] by simp

text \<open>
  The specification's examples of section 8, computed by the kernel.
\<close>

lemma removeParam_examples:
  "removeParam ''key'' ''/private?key=abc&foo=bar'' = ''/private?foo=bar''
   \<and> removeParam ''key'' ''/private?key=abc'' = ''/private''
   \<and> removeParam ''key'' ''/private'' = ''/private''
   \<and> removeParam ''key'' ''/private?foo=1&key=2&key=3&bar=4'' = ''/private?foo=1&bar=4''"
  by (simp add: removeParam_def param_name_def js_splice1_def)

text \<open>
  C15 (divergence). The specification splits the URL at the first \<open>?\<close> and keeps all
  of the rest; the code takes \<open>sourceURL.split("?")[1]\<close>, so a second \<open>?\<close> (legal in a
  query string, for instance in a return URL) cuts the query there: whatever follows it
  is lost from the result, parameters included, for every URL and key, while the
  specification's query string keeps it.
\<close>

theorem removeParam_second_question_mark:
  assumes p: "CHR ''?'' \<notin> set p" and q: "CHR ''?'' \<notin> set q"
  shows "removeParam key (p @ CHR ''?'' # q @ CHR ''?'' # r) = removeParam key (p @ CHR ''?'' # q)
    \<and> url_query (p @ CHR ''?'' # q @ CHR ''?'' # r) = q @ CHR ''?'' # r"
proof -
  have qp: "query_params (p @ CHR ''?'' # q @ CHR ''?'' # r) = query_params (p @ CHR ''?'' # q)"
    using p q by (simp add: query_params_def js_split_append_sep)
  have u1: "url_path (p @ CHR ''?'' # q @ CHR ''?'' # r) = p"
    and u3: "url_query (p @ CHR ''?'' # q @ CHR ''?'' # r) = q @ CHR ''?'' # r"
    using url_path_query_append [OF p, of "q @ CHR ''?'' # r"] by simp_all
  have u2: "url_path (p @ CHR ''?'' # q) = p"
    using url_path_query_append [OF p, of q] by simp
  show ?thesis
    by (simp only: removeParam_closed qp u1 u2 u3)
qed

theorem removeParam_second_question_mark_witness:
  "removeParam ''key'' ''/p?next=/q?x=1&key=k'' = ''/p?next=/q''
   \<and> removeParam_spec ''key'' ''/p?next=/q?x=1&key=k'' = ''/p?next=/q?x=1''"
proof -
  have "removeParam ''key'' (''/p'' @ CHR ''?'' # ''next=/q'' @ CHR ''?'' # ''x=1&key=k'')
      = removeParam ''key'' (''/p'' @ CHR ''?'' # ''next=/q'')"
    using removeParam_second_question_mark [of "''/p''" "''next=/q''" "''key''" "''x=1&key=k''"]
    by simp
  then show ?thesis
    by (simp add: removeParam_def removeParam_spec_def url_path_def url_query_def
        param_name_def js_splice1_def)
qed

text \<open>
  C23 (roundtrip). Splitting the query at \<open>&\<close> and joining the kept tokens back
  restores it: a URL with at most one \<open>?\<close>, no parameter named \<open>key\<close> and, if it has
  a \<open>?\<close>, a non-empty query comes back from \<open>removeParam key\<close> unchanged; in particular
  a URL without a query string is returned as it is.
\<close>

theorem removeParam_absent_key:
  assumes one: "count_list u (CHR ''?'') \<le> 1"
    and absent: "\<forall>t \<in> set (query_params u). param_name t \<noteq> key"
    and nonempty: "CHR ''?'' \<in> set u \<Longrightarrow> url_query u \<noteq> []"
  shows "removeParam key u = u"
proof (cases "CHR ''?'' \<in> set u")
  case False
  then show ?thesis by (simp add: removeParam_def takeWhile_eq_all_conv [THEN iffD2] hd_js_split)
next
  case True
  obtain p r where u: "u = p @ CHR ''?'' # r" and p: "CHR ''?'' \<notin> set p"
    using split_list_first [OF True] by blast
  have pq: "url_path u = p" "url_query u = r"
    using url_path_query_append [OF p, of r] u by simp_all
  have "r \<noteq> []" using nonempty True pq by simp
  moreover have qp: "query_params u = js_split (CHR ''&'') r"
    using query_split_at_most_one [OF one True] pq \<open>r \<noteq> []\<close> by simp
  ultimately show ?thesis
    using absent u pq by (simp add: removeParam_closed filter_True js_string)
qed

theorem removeParam_absent_key_witness:
  "count_list ''/private?foo=bar&lang=fr'' (CHR ''?'') \<le> 1
   \<and> map param_name (query_params ''/private?foo=bar&lang=fr'') = [''foo'', ''lang'']
   \<and> url_query ''/private?foo=bar&lang=fr'' = ''foo=bar&lang=fr''
   \<and> removeParam ''key'' ''/private?foo=bar&lang=fr'' = ''/private?foo=bar&lang=fr''"
proof -
  have h1: "count_list ''/private?foo=bar&lang=fr'' (CHR ''?'') \<le> 1" by simp
  have h2: "\<forall>t \<in> set (query_params ''/private?foo=bar&lang=fr''). param_name t \<noteq> ''key''"
    by (simp add: query_params_def param_name_def)
  have h3: "CHR ''?'' \<in> set ''/private?foo=bar&lang=fr'' \<Longrightarrow> url_query ''/private?foo=bar&lang=fr'' \<noteq> []"
    by (simp add: url_query_def url_path_def)
  show ?thesis using h1 removeParam_absent_key [OF h1 h2 h3]
    by (simp add: query_params_def param_name_def url_query_def url_path_def)
qed

text \<open>
  C24 (functional). \<open>removeParam\<close> is idempotent except in one case: when the only
  token that survives is empty (\<open>/private?key=abc&\<close>), the result keeps a trailing
  \<open>?\<close>, which a second application drops.
\<close>

theorem removeParam_twice:
  "removeParam key (removeParam key u) =
     (if filter (\<lambda>t. param_name t \<noteq> key) (query_params u) = [[]] then url_path u
      else removeParam key u)"
proof -
  let ?kept = "filter (\<lambda>t. param_name t \<noteq> key) (query_params u)"
  have path: "url_path (removeParam key u) = url_path u" by (rule url_path_removeParam)
  show ?thesis
  proof (cases "?kept = [[]]")
    case True
    then show ?thesis
      using path query_params_removeParam [of key u] by (simp add: removeParam_closed [of key "removeParam key u"])
  next
    case False
    then have "filter (\<lambda>t. param_name t \<noteq> key) (query_params (removeParam key u)) = ?kept"
      using query_params_removeParam [of key u] by (simp add: Let_def)
    with False path show ?thesis
      by (simp only: removeParam_closed [of key "removeParam key u"] Let_def)
        (simp add: removeParam_closed [of key u] Let_def)
  qed
qed

text \<open>An instance of the exception.\<close>

theorem removeParam_not_idempotent:
  "removeParam ''key'' ''/private?key=abc&'' = ''/private?''
   \<and> removeParam ''key'' (removeParam ''key'' ''/private?key=abc&'') = ''/private''"
  by (simp add: removeParam_def param_name_def js_splice1_def)

text \<open>
  C27 (equivalence). The loop as written leaves in \<open>params\<close> exactly what the counting-down
  recursion \<open>strip_params\<close>, which \<open>removeParam\<close> is defined with, computes.
\<close>

theorem removeParam_loop_eq:
  "removeParam_loop key params = Some (strip_params key (length params) params)"
proof -
  obtain t where t: "while_option (\<lambda>(i, _). i \<ge> 0) (removeParam_loop_body key)
      (int (length params) - 1, params) = Some t"
    using removeParam_while_Some by blast
  obtain i ps where ti: "t = (i, ps)" by (cases t)
  have "loop_inv key params t"
    by (rule while_option_rule [where P = "loop_inv key params", OF loop_inv_step t])
      (simp_all add: loop_inv_def)
  moreover have "\<not> 0 \<le> i" using while_option_stop [OF t] ti by simp
  ultimately have "ps = strip_params key (length params) params"
    using ti by (simp add: loop_inv_def)
  then show ?thesis using t ti by (simp add: removeParam_loop_def)
qed

text \<open>
  C28 (bounds). Sanitizing never lengthens a URL: the result of \<open>removeParam\<close> is at
  most as long as its argument.
\<close>

theorem removeParam_length: "length (removeParam key u) \<le> length u"
proof -
  let ?kept = "filter (\<lambda>t. param_name t \<noteq> key) (query_params u)"
  have path: "length (url_path u) \<le> length u" by (simp add: url_path_def length_takeWhile_le)
  show ?thesis
  proof (cases "?kept = []")
    case True
    then show ?thesis using path by (simp add: removeParam_closed)
  next
    case False
    then have "query_params u \<noteq> []" by auto
    then show ?thesis
      using False length_query_params [of u]
        length_js_join_filter [of "CHR ''&''" "\<lambda>t. param_name t \<noteq> key" "query_params u"]
      by (simp add: removeParam_closed Let_def)
  qed
qed

end
