(* ===== verification/Gate.thy ===== *)
theory Gate
  imports Protocol RemoveParam
begin

text \<open>
  The authentication gate: the middleware \<open>ensureAuthenticated(req, res, next)\<close> and the
  handler factory \<open>globalLogout(redirectUrl)\<close> that \<open>TequilaStrategy\<close> installs on the
  strategy object (\<^verbatim>\<open>src/lib/passport-tequila/strategy.js\<close>, lines 44--84).
  One invocation is a function of the strategy, the environment's answers
  (\<open>gate_env\<close>), the request and the session (\<open>None\<close>: not authenticated), returning
  the new session, the list of remote and host calls made, in order, and what the request
  ends with: \<open>next()\<close>, \<open>next(error)\<close> or a redirect. The nested callbacks of the code
  are the definitions \<open>createrequest_callback\<close>, \<open>fetch_callback\<close> and
  \<open>login_callback\<close>, composed as the code nests them.
  The life of a session across requests is the step relation \<open>gate_step\<close>; its reachable
  states keep \<open>session_wf\<close>: a stored profile is always one the mapper built.
\<close>

subsection \<open>Requests, calls, responses\<close>

text \<open>
  The request as the middleware reads it: \<open>req.originalUrl\<close>, \<open>req.query\<close> (which may be
  absent: the code tests \<open>req.query &&\<close>), and the scheme and host it arrived at, from
  which \<open>redirectUrl\<close> builds absolute URLs.
\<close>

record request =
  originalUrl :: js_string
  query :: "(js_string \<rightharpoonup> query_value) option"
  req_base :: js_string

datatype call =
    CreateRequest "(js_string \<times> js_string) list"
  | RequestAuth js_string
  | FetchAttributes query_value
  | Login tequila_user
  | Logout
  | TequilaLogout js_string

datatype response = Next | NextError tequila_error | Redirect js_string

type_synonym session = "tequila_user option"

type_synonym gate_result = "session \<times> call list \<times> response"

fun is_create :: "call \<Rightarrow> bool" where
  "is_create (CreateRequest _) = True"
| "is_create _ = False"

fun is_fetch :: "call \<Rightarrow> bool" where
  "is_fetch (FetchAttributes _) = True"
| "is_fetch _ = False"

text \<open>
  The calls that go from this server to the identity server (\<^verbatim>\<open>createrequest\<close>,
  \<^verbatim>\<open>fetchattributes\<close>), and the one that writes the session (\<open>req.login\<close>).
\<close>

fun is_remote :: "call \<Rightarrow> bool" where
  "is_remote (CreateRequest _) = True"
| "is_remote (FetchAttributes _) = True"
| "is_remote _ = False"

fun is_login :: "call \<Rightarrow> bool" where
  "is_login (Login _) = True"
| "is_login _ = False"

text \<open>\<open>req.query && req.query.key\<close>: the key when it is present and truthy.\<close>

definition query_key :: "request \<Rightarrow> query_value option" where
  "query_key req = (case query req of None \<Rightarrow> None | Some q \<Rightarrow> q ''key'')"

definition key_param :: "request \<Rightarrow> query_value option" where
  "key_param req = (if js_truthy_q (query_key req) then query_key req else None)"

text \<open>\<open>url.parse(u).pathname\<close> of a request path: the text before the query or fragment.\<close>

definition url_pathname :: "js_string \<Rightarrow> js_string" where
  "url_pathname u = takeWhile (\<lambda>c. c \<noteq> CHR ''?'' \<and> c \<noteq> CHR ''#'') u"

subsection \<open>The middleware\<close>

text \<open>
  The response after a successful \<open>req.login\<close> (lines 56--62): redirect to the bare path,
  or to the URL without its \<open>key\<close> parameter, or continue.
\<close>

definition auth_response :: "tequila_strategy \<Rightarrow> request \<Rightarrow> response" where
  "auth_response st req =
     (if opt_redirectAfterAuth (st_opts st) then
        Redirect (redirectUrl (req_base req) (url_pathname (originalUrl req)))
      else if js_truthy_q (query_key req) then
        Redirect (removeParam ''key'' (redirectUrl (req_base req) (originalUrl req)))
      else Next)"

text \<open>
  The callback of \<open>req.login(user, cb)\<close> (lines 53--63). Passport sets the session's user
  and resets it when the session cannot be written, so on error the session is unchanged.
\<close>

definition login_callback ::
  "tequila_strategy \<Rightarrow> request \<Rightarrow> session \<Rightarrow> tequila_user \<Rightarrow> tequila_error option \<Rightarrow> gate_result" where
  "login_callback st req sess user err =
     (case err of
        Some e \<Rightarrow> (sess, [], NextError e)
      | None \<Rightarrow> (Some user, [], auth_response st req))"

text \<open>The callback of \<open>protocol.fetchattributes(key, cb)\<close> (lines 49--65).\<close>

definition fetch_callback ::
  "tequila_strategy \<Rightarrow> gate_env \<Rightarrow> request \<Rightarrow> session \<Rightarrow> tequila_error + tequila_result \<Rightarrow> gate_result" where
  "fetch_callback st env req sess answer =
     (case answer of
        Inl error \<Rightarrow> (sess, [], NextError error)
      | Inr results \<Rightarrow>
          (let user = teqResult2User results;
               (sess', calls, resp) = login_callback st req sess user (env_login env user)
           in (sess', Login user # calls, resp)))"

text \<open>The callback of \<open>protocol.createrequest(req, res, cb)\<close> (lines 68--75).\<close>

definition createrequest_callback ::
  "tequila_strategy \<Rightarrow> session \<Rightarrow> tequila_error + js_string \<Rightarrow> gate_result" where
  "createrequest_callback st sess answer =
     (case answer of
        Inl err \<Rightarrow> (sess, [], NextError err)
      | Inr results \<Rightarrow> (sess, [RequestAuth results], Redirect (requestauth_url (st_protocol st) results)))"

definition ensureAuthenticated ::
  "tequila_strategy \<Rightarrow> gate_env \<Rightarrow> request \<Rightarrow> session \<Rightarrow> gate_result" where
  "ensureAuthenticated st env req sess =
     (if sess \<noteq> None then (sess, [], Next)
      else (case key_param req of
              Some k \<Rightarrow>
                (let (sess', calls, resp) = fetch_callback st env req sess (env_fetchattributes env k)
                 in (sess', FetchAttributes k # calls, resp))
            | None \<Rightarrow>
                (let body = createrequest_body (st_protocol st)
                              (redirectUrl (req_base req) (originalUrl req));
                     (sess', calls, resp) = createrequest_callback st sess (env_createrequest env body)
                 in (sess', CreateRequest body # calls, resp))))"

text \<open>
  \<open>globalLogout(redirectUrl)(req, res)\<close> (lines 79--84): \<open>req.logout()\<close> drops the
  session, then \<open>protocol.logout\<close> redirects the browser to the server's logout.
\<close>

definition globalLogout ::
  "tequila_strategy \<Rightarrow> js_string \<Rightarrow> request \<Rightarrow> session \<Rightarrow> gate_result" where
  "globalLogout st url req sess =
     (let sess' = None
      in (sess', [Logout, TequilaLogout url], Redirect (logout_url (st_protocol st) url)))"

subsection \<open>The session across requests\<close>

text \<open>
  A step of one browser session: a request through the gate with any answers of the
  environment, a global logout, or the host dropping the session (local logout).
\<close>

inductive gate_step :: "tequila_strategy \<Rightarrow> session \<Rightarrow> session \<Rightarrow> bool" for st where
  request: "ensureAuthenticated st env req s = (s', calls, resp) \<Longrightarrow> gate_step st s s'"
| global_logout: "globalLogout st url req s = (s', calls, resp) \<Longrightarrow> gate_step st s s'"
| local_logout: "gate_step st s None"

inductive reachable :: "tequila_strategy \<Rightarrow> session \<Rightarrow> bool" for st where
  start: "reachable st None"
| step: "reachable st s \<Longrightarrow> gate_step st s s' \<Longrightarrow> reachable st s'"

inductive_cases gate_step_from_SomeE: "gate_step st (Some u) s'"

definition session_wf :: "session \<Rightarrow> bool" where
  "session_wf s = (case s of None \<Rightarrow> True | Some u \<Rightarrow> user_wf u)"


subsection \<open>The demo application's configuration and sample requests\<close>

text \<open>
  The strategy the example application builds (\<^verbatim>\<open>src/examples/express-passport/app.js\<close>,
  lines 26--30), an environment in which the identity server answers, the first request to
  \<^verbatim>\<open>/private\<close>, the request the browser makes when it comes back with the key, and one
  that comes back with an empty key.
\<close>

definition demo_strategy :: tequila_strategy where
  "demo_strategy = TequilaStrategy (Some (no_opts\<lparr>opt_service := Some ''Demo Tequila App in node.js'',
     opt_request := Some [''displayname'']\<rparr>))"

definition demo_env :: gate_env where
  "demo_env = \<lparr>env_createrequest = (\<lambda>_. Inr ''k123''),
     env_fetchattributes = (\<lambda>_. Inr [(''user'', ''lecom''), (''displayname'', ''Claude Lecommandeur'')]),
     env_login = (\<lambda>_. None)\<rparr>"

definition demo_back :: request where
  "demo_back = \<lparr>originalUrl = ''/private?key=k123&lang=fr'',
     query = Some [''key'' \<mapsto> QStr ''k123'', ''lang'' \<mapsto> QStr ''fr''],
     req_base = ''http://localhost:3000''\<rparr>"

definition demo_first :: request where
  "demo_first = \<lparr>originalUrl = ''/private'', query = Some Map.empty,
     req_base = ''http://localhost:3000''\<rparr>"

definition demo_empty_key :: request where
  "demo_empty_key = \<lparr>originalUrl = ''/private?key='', query = Some [''key'' \<mapsto> QStr []],
     req_base = ''http://localhost:3000''\<rparr>"

definition demo_repeated_key :: request where
  "demo_repeated_key = \<lparr>originalUrl = ''/private?key=a&key=b'',
     query = Some [''key'' \<mapsto> QArr [''a'', ''b'']], req_base = ''http://localhost:3000''\<rparr>"

subsection \<open>The branches of the middleware\<close>

lemma ensureAuthenticated_no_key:
  "key_param req = None \<Longrightarrow>
   ensureAuthenticated st env req None =
     (let body = createrequest_body (st_protocol st) (redirectUrl (req_base req) (originalUrl req))
      in case env_createrequest env body of
           Inl err \<Rightarrow> (None, [CreateRequest body], NextError err)
         | Inr k \<Rightarrow> (None, [CreateRequest body, RequestAuth k],
                      Redirect (requestauth_url (st_protocol st) k)))"
  by (simp add: ensureAuthenticated_def createrequest_callback_def Let_def split: sum.split)

lemma ensureAuthenticated_key:
  "key_param req = Some k \<Longrightarrow>
   ensureAuthenticated st env req None =
     (case env_fetchattributes env k of
        Inl err \<Rightarrow> (None, [FetchAttributes k], NextError err)
      | Inr results \<Rightarrow>
          (case env_login env (teqResult2User results) of
             Some err \<Rightarrow> (None, [FetchAttributes k, Login (teqResult2User results)], NextError err)
           | None \<Rightarrow> (Some (teqResult2User results), [FetchAttributes k, Login (teqResult2User results)],
                      auth_response st req)))"
  by (simp add: ensureAuthenticated_def fetch_callback_def login_callback_def Let_def
      split: sum.split option.split)

lemma user_id_teqResult2User: "user_id (teqResult2User r) = map_of r ''user''"
  by (simp add: teqResult2User_copy)

lemma key_param_Some: "key_param req = Some k \<Longrightarrow> query_key req = Some k \<and> js_truthy_q (Some k)"
  by (auto simp: key_param_def split: if_splits)

lemma key_param_None: "key_param req = None \<longleftrightarrow> \<not> js_truthy_q (query_key req)"
  by (cases "query_key req") (auto simp: key_param_def)

lemma auth_response_Redirect:
  "js_truthy_q (query_key req) \<Longrightarrow> \<exists>url. auth_response st req = Redirect url"
  by (simp add: auth_response_def)

lemma demo_back_run:
  "ensureAuthenticated demo_strategy demo_env demo_back None =
     (Some (teqResult2User [(''user'', ''lecom''), (''displayname'', ''Claude Lecommandeur'')]),
      [FetchAttributes (QStr ''k123''),
       Login (teqResult2User [(''user'', ''lecom''), (''displayname'', ''Claude Lecommandeur'')])],
      Redirect ''http://localhost:3000/private?lang=fr'')"
  by (simp add: ensureAuthenticated_key key_param_def query_key_def demo_back_def demo_env_def
      demo_strategy_def TequilaStrategy_def no_opts_def auth_response_def redirectUrl_def
      removeParam_def param_name_def js_splice1_def)

lemma demo_first_run:
  "ensureAuthenticated demo_strategy demo_env demo_first None =
     (None, [CreateRequest [(''urlaccess'', ''http://localhost:3000/private''),
               (''service'', ''Demo Tequila App in node.js''), (''request'', ''displayname'')],
             RequestAuth ''k123''],
      Redirect ''https://tequila.epfl.ch/cgi-bin/tequila/requestauth?requestkey=k123'')"
  by (simp add: ensureAuthenticated_no_key key_param_def query_key_def demo_first_def demo_env_def
      demo_strategy_def TequilaStrategy_def no_opts_def new_Protocol_def createrequest_body_def
      redirectUrl_def requestauth_url_def tequila_base_def)

lemma ensureAuthenticated_None_cases:
  assumes "ensureAuthenticated st env req None = (s', calls, resp)"
  shows "(\<exists>e. resp = NextError e \<and> s' = None) \<or> (\<exists>url. resp = Redirect url)"
proof (cases "key_param req")
  case None
  then show ?thesis
    using assms by (auto simp: ensureAuthenticated_no_key Let_def split: sum.splits)
next
  case (Some k)
  from Some have "js_truthy_q (query_key req)" by (simp add: key_param_def split: if_splits)
  then obtain url where url: "auth_response st req = Redirect url"
    using auth_response_Redirect by blast
  show ?thesis
  proof (cases "env_fetchattributes env k")
    case (Inl e)
    with Some assms show ?thesis by (auto simp: ensureAuthenticated_key)
  next
    case (Inr res)
    with Some assms show ?thesis
      by (cases "env_login env (teqResult2User res)") (auto simp: ensureAuthenticated_key url)
  qed
qed

lemma ensureAuthenticated_session:
  "fst (ensureAuthenticated st env req s) = s \<or>
   (\<exists>r. fst (ensureAuthenticated st env req s) = Some (teqResult2User r))"
proof (cases s)
  case None
  then show ?thesis
  proof (cases "key_param req")
    case None
    with \<open>s = None\<close> show ?thesis
      by (simp add: ensureAuthenticated_no_key Let_def split: sum.splits)
  next
    case (Some k)
    with \<open>s = None\<close> show ?thesis
      by (auto simp: ensureAuthenticated_key split: sum.splits option.splits)
  qed
next
  case (Some u)
  then show ?thesis by (simp add: ensureAuthenticated_def)
qed

lemma gate_step_session_wf:
  assumes "gate_step st s s'" and "session_wf s"
  shows "session_wf s'"
  using assms
proof (induction rule: gate_step.induct)
  case (request env req s s' calls resp)
  then have "fst (ensureAuthenticated st env req s) = s'" by simp
  then show ?case
    using ensureAuthenticated_session [of st env req s] request.prems
    by (auto simp: session_wf_def user_wf_teqResult2User)
next
  case (global_logout url req s s' calls resp)
  then show ?case by (auto simp: globalLogout_def session_wf_def)
next
  case (local_logout s)
  then show ?case by (simp add: session_wf_def)
qed

lemma ensureAuthenticated_login_response:
  assumes "ensureAuthenticated st env req None = (Some u, calls, resp)"
  shows "resp = auth_response st req \<and> js_truthy_q (query_key req)"
proof (cases "key_param req")
  case None
  with assms show ?thesis
    by (simp add: ensureAuthenticated_no_key Let_def split: sum.splits)
next
  case (Some k)
  with assms key_param_Some [OF Some] show ?thesis
    by (auto simp: ensureAuthenticated_key split: sum.splits option.splits)
qed

lemma demo_empty_key_run:
  "ensureAuthenticated demo_strategy demo_env demo_empty_key None =
     (None, [CreateRequest [(''urlaccess'', ''http://localhost:3000/private?key=''),
               (''service'', ''Demo Tequila App in node.js''), (''request'', ''displayname'')],
             RequestAuth ''k123''],
      Redirect ''https://tequila.epfl.ch/cgi-bin/tequila/requestauth?requestkey=k123'')"
  by (simp add: ensureAuthenticated_no_key key_param_def query_key_def demo_empty_key_def
      demo_env_def demo_strategy_def TequilaStrategy_def no_opts_def new_Protocol_def
      createrequest_body_def redirectUrl_def requestauth_url_def tequila_base_def)

lemma demo_logout_run:
  "globalLogout demo_strategy ''/'' demo_back (Some u) =
     (None, [Logout, TequilaLogout ''/''],
      Redirect ''https://tequila.epfl.ch/cgi-bin/tequila/logout?urlaccess=/'')"
  by (simp add: globalLogout_def logout_url_def tequila_base_def demo_strategy_def
      TequilaStrategy_def no_opts_def new_Protocol_def)

subsection \<open>Properties\<close>

text \<open>
  C1 (safety). No authentication bypass: a request that arrives without an authenticated
  session never reaches the protected handler (\<open>next()\<close> without an error); it ends
  with an error or a redirect, whatever the identity server and the host answer.
\<close>

theorem ensureAuthenticated_unauth_never_next:
  "ensureAuthenticated st env req None = (s', calls, resp) \<Longrightarrow> resp \<noteq> Next"
  using ensureAuthenticated_None_cases by blast

theorem ensureAuthenticated_unauth_never_next_witness:
  "snd (snd (ensureAuthenticated demo_strategy demo_env demo_back None)) \<noteq> Next
   \<and> snd (snd (ensureAuthenticated demo_strategy demo_env demo_first None)) \<noteq> Next"
  using ensureAuthenticated_unauth_never_next [OF demo_back_run]
    ensureAuthenticated_unauth_never_next [OF demo_first_run]
  by (simp add: demo_back_run demo_first_run)

text \<open>
  C2 (error). A failed key exchange is surfaced as \<open>next(error)\<close>, makes exactly that one
  remote call, and leaves the session unauthenticated.
\<close>

theorem ensureAuthenticated_fetch_error:
  "query_key req = Some k \<Longrightarrow> js_truthy_q (Some k) \<Longrightarrow>
   env_fetchattributes env k = Inl e \<Longrightarrow>
   ensureAuthenticated st env req None = (None, [FetchAttributes k], NextError e)"
  by (simp add: ensureAuthenticated_key key_param_def)

theorem ensureAuthenticated_fetch_error_witness:
  "query_key demo_back = Some (QStr ''k123'') \<and> js_truthy_q (Some (QStr ''k123''))
   \<and> env_fetchattributes (demo_env\<lparr>env_fetchattributes := (\<lambda>_. Inl ProtocolError)\<rparr>) (QStr ''k123'')
       = Inl ProtocolError
   \<and> ensureAuthenticated demo_strategy (demo_env\<lparr>env_fetchattributes := (\<lambda>_. Inl ProtocolError)\<rparr>)
       demo_back None = (None, [FetchAttributes (QStr ''k123'')], NextError ProtocolError)"
proof -
  have q: "query_key demo_back = Some (QStr ''k123'')"
    by (simp add: query_key_def demo_back_def)
  show ?thesis
    using ensureAuthenticated_fetch_error [OF q, of
        "demo_env\<lparr>env_fetchattributes := (\<lambda>_. Inl ProtocolError)\<rparr>" ProtocolError demo_strategy]
    by (simp add: q)
qed

text \<open>
  C3 (safety). The session becomes authenticated only through a successful key exchange
  for the key the request carries: the stored profile is the mapper's image of the
  attributes the server returned for that key, the login succeeded, and the calls were the
  exchange followed by the login, in that order.
\<close>

theorem ensureAuthenticated_login_only_after_fetch:
  assumes "ensureAuthenticated st env req None = (Some u, calls, resp)"
  shows "\<exists>k results. query_key req = Some k \<and> js_truthy_q (Some k)
           \<and> env_fetchattributes env k = Inr results \<and> u = teqResult2User results
           \<and> env_login env u = None \<and> calls = [FetchAttributes k, Login u]
           \<and> resp = auth_response st req"
proof (cases "key_param req")
  case None
  with assms show ?thesis
    by (simp add: ensureAuthenticated_no_key Let_def split: sum.splits)
next
  case (Some k)
  with assms key_param_Some [OF Some] show ?thesis
    by (auto simp: ensureAuthenticated_key split: sum.splits option.splits)
qed

theorem ensureAuthenticated_login_only_after_fetch_witness:
  "\<exists>k results. query_key demo_back = Some k \<and> env_fetchattributes demo_env k = Inr results
     \<and> teqResult2User [(''user'', ''lecom''), (''displayname'', ''Claude Lecommandeur'')]
         = teqResult2User results"
  using ensureAuthenticated_login_only_after_fetch [OF demo_back_run] by blast

text \<open>
  C4 (invariant). In every session state reachable by requests, global and local logouts,
  a stored profile is well formed: its \<open>id\<close>, \<open>displayName\<close> and \<open>name\<close> agree with
  its own verbatim attribute copy and its provider is \<open>tequila\<close>.
\<close>

theorem reachable_session_wf: "reachable st s \<Longrightarrow> session_wf s"
proof (induction rule: reachable.induct)
  case start
  then show ?case by (simp add: session_wf_def)
next
  case (step s s')
  from step.hyps(2) step.IH show ?case by (rule gate_step_session_wf)
qed

theorem reachable_session_wf_witness:
  "reachable demo_strategy
     (Some (teqResult2User [(''user'', ''lecom''), (''displayname'', ''Claude Lecommandeur'')]))
   \<and> session_wf
     (Some (teqResult2User [(''user'', ''lecom''), (''displayname'', ''Claude Lecommandeur'')]))"
proof -
  have "gate_step demo_strategy None
     (Some (teqResult2User [(''user'', ''lecom''), (''displayname'', ''Claude Lecommandeur'')]))"
    by (rule gate_step.request [OF demo_back_run])
  then have r: "reachable demo_strategy
     (Some (teqResult2User [(''user'', ''lecom''), (''displayname'', ''Claude Lecommandeur'')]))"
    by (rule reachable.step [OF reachable.start])
  then show ?thesis using reachable_session_wf [OF r] by simp
qed

text \<open>
  C10 (functional). The gate's three branches and the calls each makes. An authenticated
  request passes through: no call, the session unchanged, \<open>next()\<close>. An unauthenticated
  request with a truthy \<open>key\<close> makes one \<^verbatim>\<open>fetchattributes\<close> call and no
  \<^verbatim>\<open>createrequest\<close> call; without one it makes one \<^verbatim>\<open>createrequest\<close> call, no
  \<^verbatim>\<open>fetchattributes\<close> call, and does not authenticate the session.
\<close>

theorem ensureAuthenticated_branch_calls:
  assumes run: "ensureAuthenticated st env req s = (s', calls, resp)"
  shows "if s \<noteq> None then s' = s \<and> calls = [] \<and> resp = Next
         else if js_truthy_q (query_key req)
         then length (filter is_fetch calls) = 1 \<and> filter is_create calls = []
         else s' = None \<and> length (filter is_create calls) = 1 \<and> filter is_fetch calls = []"
proof (cases s)
  case (Some u)
  with run show ?thesis by (auto simp: ensureAuthenticated_def)
next
  case None
  show ?thesis
  proof (cases "js_truthy_q (query_key req)")
    case True
    then obtain k where "key_param req = Some k"
      by (cases "query_key req") (auto simp: key_param_def)
    with True None run show ?thesis
      by (auto simp: ensureAuthenticated_key split: sum.splits option.splits)
  next
    case False
    then have "key_param req = None" by (simp add: key_param_None)
    with False None run show ?thesis
      by (auto simp: ensureAuthenticated_no_key Let_def split: sum.splits)
  qed
qed

theorem ensureAuthenticated_branch_calls_witness:
  "\<not> js_truthy_q (query_key demo_first)
   \<and> length (filter is_create [CreateRequest [(''urlaccess'', ''http://localhost:3000/private''),
               (''service'', ''Demo Tequila App in node.js''), (''request'', ''displayname'')],
             RequestAuth ''k123'']) = 1
   \<and> js_truthy_q (query_key demo_back)
   \<and> length (filter is_fetch [FetchAttributes (QStr ''k123''),
       Login (teqResult2User [(''user'', ''lecom''), (''displayname'', ''Claude Lecommandeur'')])]) = 1
   \<and> ensureAuthenticated demo_strategy demo_env demo_first (Some (teqResult2User []))
       = (Some (teqResult2User []), [], Next)"
proof -
  have n: "\<not> js_truthy_q (query_key demo_first)"
    by (simp add: query_key_def demo_first_def)
  have k: "js_truthy_q (query_key demo_back)"
    by (simp add: query_key_def demo_back_def)
  obtain s' calls resp where a:
    "ensureAuthenticated demo_strategy demo_env demo_first (Some (teqResult2User [])) = (s', calls, resp)"
    by (cases "ensureAuthenticated demo_strategy demo_env demo_first (Some (teqResult2User []))") auto
  show ?thesis
    using ensureAuthenticated_branch_calls [OF demo_first_run] ensureAuthenticated_branch_calls [OF demo_back_run]
      ensureAuthenticated_branch_calls [OF a] a n k
    by simp
qed

text \<open>
  C12 (safety). A global logout drops the local session first, whatever the remote
  identity server does, then redirects to the server's logout; the next request through
  the gate is unauthenticated again and cannot reach the protected handler.
\<close>

theorem globalLogout_clears_session:
  assumes "globalLogout st url req s = (s', calls, resp)"
  shows "s' = None \<and> calls = [Logout, TequilaLogout url]
         \<and> resp = Redirect (logout_url (st_protocol st) url)
         \<and> snd (snd (ensureAuthenticated st env req' s')) \<noteq> Next"
proof -
  from assms have s': "s' = None" and rest: "calls = [Logout, TequilaLogout url]"
    "resp = Redirect (logout_url (st_protocol st) url)"
    by (auto simp: globalLogout_def)
  have "(\<exists>e. snd (snd (ensureAuthenticated st env req' None)) = NextError e) \<or>
        (\<exists>u. snd (snd (ensureAuthenticated st env req' None)) = Redirect u)"
    using ensureAuthenticated_None_cases [of st env req' _ _ "snd (snd (ensureAuthenticated st env req' None))"]
    by (metis prod.collapse)
  with s' rest show ?thesis by auto
qed

theorem globalLogout_clears_session_witness:
  "snd (snd (ensureAuthenticated demo_strategy demo_env demo_back None)) \<noteq> Next"
  using globalLogout_clears_session [OF demo_logout_run [of "teqResult2User []"],
      of demo_env demo_back]
  by simp

text \<open>
  C16 (divergence). The specification says an empty \<open>key\<close> parameter counts as present
  and is sent to the identity server; the code tests \<open>req.query.key\<close> for truthiness, so
  \<open>?key=\<close> starts a new handshake instead and no exchange is attempted.
\<close>

theorem ensureAuthenticated_empty_key:
  assumes "query_key req = Some (QStr [])"
    and "ensureAuthenticated st env req None = (s', calls, resp)"
  shows "filter is_fetch calls = [] \<and> length (filter is_create calls) = 1"
proof -
  from assms(1) have "key_param req = None" by (simp add: key_param_def)
  with assms(2) show ?thesis
    by (auto simp: ensureAuthenticated_no_key Let_def split: sum.splits)
qed

theorem ensureAuthenticated_empty_key_witness:
  "query_key demo_empty_key = Some (QStr [])
   \<and> length (filter is_create [CreateRequest [(''urlaccess'', ''http://localhost:3000/private?key=''),
               (''service'', ''Demo Tequila App in node.js''), (''request'', ''displayname'')],
             RequestAuth ''k123'']) = 1"
proof -
  have q: "query_key demo_empty_key = Some (QStr [])"
    by (simp add: query_key_def demo_empty_key_def)
  show ?thesis
    using ensureAuthenticated_empty_key [OF q demo_empty_key_run] q by simp
qed

text \<open>
  C25 (functional). A repeated \<open>key\<close> parameter (\<open>?key=a&key=b\<close>) reaches the gate as
  an array, which is truthy: the gate sends the whole array to \<^verbatim>\<open>fetchattributes\<close> as
  the key and starts no new handshake. The specification does not say what a repeated key
  means for the exchange.
\<close>

theorem ensureAuthenticated_array_key:
  assumes "query_key req = Some (QArr ks)"
    and "ensureAuthenticated st env req None = (s', calls, resp)"
  shows "hd calls = FetchAttributes (QArr ks) \<and> filter is_create calls = []"
proof -
  from assms(1) have "key_param req = Some (QArr ks)" by (simp add: key_param_def)
  with assms(2) show ?thesis
    by (auto simp: ensureAuthenticated_key split: sum.splits option.splits)
qed

theorem ensureAuthenticated_array_key_witness:
  "query_key demo_repeated_key = Some (QArr [''a'', ''b''])
   \<and> hd (fst (snd (ensureAuthenticated demo_strategy demo_env demo_repeated_key None)))
       = FetchAttributes (QArr [''a'', ''b''])"
proof -
  have q: "query_key demo_repeated_key = Some (QArr [''a'', ''b''])"
    by (simp add: query_key_def demo_repeated_key_def)
  show ?thesis
    using ensureAuthenticated_array_key [OF q, of demo_strategy demo_env
        "fst (ensureAuthenticated demo_strategy demo_env demo_repeated_key None)"
        "fst (snd (ensureAuthenticated demo_strategy demo_env demo_repeated_key None))"
        "snd (snd (ensureAuthenticated demo_strategy demo_env demo_repeated_key None))"] q
    by simp
qed

text \<open>
  C26 (safety). An authenticated session is never switched to another user: from a session
  holding a profile, a step keeps it or drops it. A different user can only log in after
  a logout.
\<close>

theorem gate_step_keeps_user:
  assumes "gate_step st (Some u) s'"
  shows "s' = Some u \<or> s' = None"
  using assms
  by (auto elim: gate_step_from_SomeE simp: ensureAuthenticated_def globalLogout_def)

theorem gate_step_keeps_user_witness:
  "gate_step demo_strategy (Some (teqResult2User [])) (Some (teqResult2User []))
   \<and> (Some (teqResult2User []) = Some (teqResult2User []) \<or> Some (teqResult2User []) = None)"
proof -
  have e: "ensureAuthenticated demo_strategy demo_env demo_first (Some (teqResult2User [])) =
      (Some (teqResult2User []), [], Next)"
    by (simp add: ensureAuthenticated_def)
  have s: "gate_step demo_strategy (Some (teqResult2User [])) (Some (teqResult2User []))"
    by (rule gate_step.request [OF e])
  show ?thesis using s gate_step_keeps_user [OF s] by blast
qed

text \<open>
  C30 (bounds). One request through the gate makes at most one call to the identity
  server, writes the session at most once, and makes at most two calls in all
  (specification section 5: at most one outstanding remote call per request, at most one
  session write).
\<close>

theorem ensureAuthenticated_call_bounds:
  "length (filter is_remote (fst (snd (ensureAuthenticated st env req s)))) \<le> 1
   \<and> length (filter is_login (fst (snd (ensureAuthenticated st env req s)))) \<le> 1
   \<and> length (fst (snd (ensureAuthenticated st env req s))) \<le> 2"
proof (cases s)
  case None
  then show ?thesis
  proof (cases "key_param req")
    case None
    with \<open>s = None\<close> show ?thesis
      by (simp add: ensureAuthenticated_no_key Let_def split: sum.split)
  next
    case (Some k)
    with \<open>s = None\<close> show ?thesis
      by (simp add: ensureAuthenticated_key split: sum.split option.split)
  qed
next
  case (Some u)
  then show ?thesis by (simp add: ensureAuthenticated_def)
qed

text \<open>
  C17 (divergence). The specification makes the \<open>user\<close> attribute mandatory: the mapper
  must fail with a protocol error when it is missing, and a failed exchange must not
  authenticate the session. The code copies \<open>result.user\<close> unchecked: for every answer
  without \<open>user\<close>, the gate logs in a profile whose \<open>id\<close> is \<open>undefined\<close> and ends
  the request as after a successful handshake.
\<close>

theorem ensureAuthenticated_missing_user:
  assumes "key_param req = Some k" and "env_fetchattributes env k = Inr r"
    and "map_of r ''user'' = None" and "env_login env (teqResult2User r) = None"
  shows "ensureAuthenticated st env req None =
           (Some (teqResult2User r), [FetchAttributes k, Login (teqResult2User r)], auth_response st req)
    \<and> user_id (teqResult2User r) = None"
  using assms by (simp add: ensureAuthenticated_key user_id_teqResult2User)

theorem ensureAuthenticated_missing_user_witness:
  "user_id (teqResult2User [(''displayname'', ''Claude Lecommandeur'')]) = None
   \<and> fst (ensureAuthenticated demo_strategy
        (demo_env\<lparr>env_fetchattributes := (\<lambda>_. Inr [(''displayname'', ''Claude Lecommandeur'')])\<rparr>)
        demo_back None) = Some (teqResult2User [(''displayname'', ''Claude Lecommandeur'')])"
proof -
  have k: "key_param demo_back = Some (QStr ''k123'')"
    by (simp add: key_param_def query_key_def demo_back_def)
  show ?thesis
    using ensureAuthenticated_missing_user [OF k, of
        "demo_env\<lparr>env_fetchattributes := (\<lambda>_. Inr [(''displayname'', ''Claude Lecommandeur'')])\<rparr>"
        "[(''displayname'', ''Claude Lecommandeur'')]" demo_strategy]
    by (simp add: demo_env_def)
qed

end
