(* ===== verification/Logging.thy ===== *)
theory Logging
  imports Gate "HOL-Library.Sublist"
begin

text \<open>
  The debug output of the gate. \<^verbatim>\<open>src/lib/passport-tequila/strategy.js\<close> creates a
  \<open>debug\<close> logger for the namespace \<^verbatim>\<open>passport-tequila:strategy\<close> (line 5) and
  \<open>ensureAuthenticated\<close> writes four messages to it (lines 46, 48, 67 and 72). The
  \<open>debug\<close> package writes a logger's messages only when the environment variable
  \<^verbatim>\<open>DEBUG\<close>, read when the logger is created, enables its namespace; the package is not
  among the sources, and its reading of \<^verbatim>\<open>DEBUG\<close> is modelled from its documentation.
  \<open>ensureAuthenticated_traced\<close> is the middleware with its debug calls, returning the
  messages it writes, in order, beside the result of theory \<open>Gate\<close>. The lemmas show
  that the messages do not change what the gate does, and that whenever the namespace is
  enabled every key the gate sends to \<^verbatim>\<open>fetchattributes\<close> is written to the log in clear,
  which the specification forbids (section 3: the key must not be logged).
\<close>

definition debug_ns :: js_string where
  "debug_ns = ''passport-tequila:strategy''"

type_synonym debug_entry = "js_string \<times> js_string"

text \<open>
  A pattern of \<^verbatim>\<open>DEBUG\<close> matches a namespace as the regular expression in which every
  \<open>*\<close> stands for any text.
\<close>

fun glob_match :: "js_string \<Rightarrow> js_string \<Rightarrow> bool" where
  "glob_match [] s = (s = [])"
| "glob_match (c # p) s =
     (if c = CHR ''*'' then list_ex (\<lambda>i. glob_match p (drop i s)) [0..<Suc (length s)]
      else (case s of [] \<Rightarrow> False | d # s' \<Rightarrow> c = d \<and> glob_match p s'))"

text \<open>
  \<^verbatim>\<open>DEBUG\<close> is a list of patterns separated by commas or spaces; a pattern starting with
  \<open>-\<close> excludes the namespaces it matches. A namespace is enabled when no exclusion and
  some other pattern match it. (Separators other than comma and space are not modelled.)
\<close>

definition debug_enabled :: "js_string \<Rightarrow> js_string \<Rightarrow> bool" where
  "debug_enabled dbg ns =
     (let names = filter (\<lambda>n. n \<noteq> []) (concat (map (js_split CHR '' '') (js_split CHR '','' dbg)))
      in \<not> list_ex (\<lambda>n. hd n = CHR ''-'' \<and> glob_match (tl n) ns) names
         \<and> list_ex (\<lambda>n. hd n \<noteq> CHR ''-'' \<and> glob_match n ns) names)"

text \<open>
  \<open>debug(msg)\<close> of the logger created by \<open>require("debug")("passport-tequila:strategy")\<close>
  when \<^verbatim>\<open>DEBUG\<close> was \<open>dbg\<close>: the entry written, if any.
\<close>

definition debug :: "js_string \<Rightarrow> js_string \<Rightarrow> debug_entry list" where
  "debug dbg msg = (if debug_enabled dbg debug_ns then [(debug_ns, msg)] else [])"

text \<open>
  \<open>"..." + req.query.key\<close>: string concatenation converts the key to a string; an array
  (a repeated parameter) becomes its elements joined by commas.
\<close>

fun js_str_q :: "query_value \<Rightarrow> js_string" where
  "js_str_q (QStr s) = s"
| "js_str_q (QArr xs) = js_join (CHR '','') xs"

definition ensureAuthenticated_traced ::
  "js_string \<Rightarrow> tequila_strategy \<Rightarrow> gate_env \<Rightarrow> request \<Rightarrow> session \<Rightarrow> debug_entry list \<times> gate_result" where
  "ensureAuthenticated_traced dbg st env req sess =
     (if sess \<noteq> None then ([], (sess, [], Next))
      else
        (let log0 = debug dbg (''Not authenticated at '' @ originalUrl req)
         in case key_param req of
              Some k \<Rightarrow>
                (let log1 = log0 @ debug dbg (''Looks like user is back from Tequila, with key='' @ js_str_q k);
                     (sess', calls, resp) = fetch_callback st env req sess (env_fetchattributes env k)
                 in (log1, (sess', FetchAttributes k # calls, resp)))
            | None \<Rightarrow>
                (let log1 = log0 @ debug dbg ''Making first contact with Tequila'';
                     body = createrequest_body (st_protocol st)
                              (redirectUrl (req_base req) (originalUrl req));
                     answer = env_createrequest env body;
                     log2 = log1 @ (case answer of Inl _ \<Rightarrow> []
                                    | Inr _ \<Rightarrow> debug dbg ''Redirecting user to Tequila'');
                     (sess', calls, resp) = createrequest_callback st sess answer
                 in (log2, (sess', CreateRequest body # calls, resp)))))"

subsection \<open>Lemmas\<close>

text \<open>The debug calls have no effect on the gate: without its messages the traced middleware is \<open>ensureAuthenticated\<close>.\<close>

lemma ensureAuthenticated_traced_behaviour:
  "snd (ensureAuthenticated_traced dbg st env req sess) = ensureAuthenticated st env req sess"
  by (simp add: ensureAuthenticated_traced_def ensureAuthenticated_def Let_def
      split: option.split prod.split)

lemma ensureAuthenticated_fetch_call:
  assumes "FetchAttributes k \<in> set (fst (snd (ensureAuthenticated st env req s)))"
  shows "s = None \<and> key_param req = Some k"
proof (cases s)
  case (Some u)
  with assms show ?thesis by (simp add: ensureAuthenticated_def)
next
  case None
  show ?thesis
  proof (cases "key_param req")
    case None
    with \<open>s = None\<close> assms show ?thesis
      by (auto simp: ensureAuthenticated_no_key Let_def split: sum.splits)
  next
    case (Some k')
    with \<open>s = None\<close> assms show ?thesis
      by (auto simp: ensureAuthenticated_key split: sum.splits option.splits)
  qed
qed

lemma traced_disabled: "\<not> debug_enabled dbg debug_ns \<Longrightarrow> fst (ensureAuthenticated_traced dbg st env req s) = []"
  by (simp add: ensureAuthenticated_traced_def debug_def Let_def split: option.split prod.split sum.split)

text \<open>
  C31 (divergence). The specification requires that the one-time key is never logged.
  Whenever \<^verbatim>\<open>DEBUG\<close> enables the gate's namespace, every key the gate sends to
  \<^verbatim>\<open>fetchattributes\<close>, on whatever request and in whatever state, appears in clear in a
  message it writes to the log (line 48); when the namespace is not enabled the gate
  writes nothing.
\<close>

theorem ensureAuthenticated_logs_key:
  assumes "FetchAttributes k \<in> set (fst (snd (snd (ensureAuthenticated_traced dbg st env req s))))"
  shows "if debug_enabled dbg debug_ns
         then (\<exists>m \<in> set (map snd (fst (ensureAuthenticated_traced dbg st env req s))). sublist (js_str_q k) m)
         else fst (ensureAuthenticated_traced dbg st env req s) = []"
proof -
  have "s = None \<and> key_param req = Some k"
    using assms ensureAuthenticated_traced_behaviour [of dbg st env req s]
    by (intro ensureAuthenticated_fetch_call) simp
  then have log: "fst (ensureAuthenticated_traced dbg st env req s) =
      debug dbg (''Not authenticated at '' @ originalUrl req)
      @ debug dbg (''Looks like user is back from Tequila, with key='' @ js_str_q k)"
    by (simp add: ensureAuthenticated_traced_def Let_def split: prod.split)
  show ?thesis
  proof (cases "debug_enabled dbg debug_ns")
    case True
    have "sublist (js_str_q k) (''Looks like user is back from Tequila, with key='' @ js_str_q k)"
      by (rule suffix_imp_sublist) (simp add: suffix_def)
    with True log show ?thesis by (auto simp: debug_def)
  next
    case False
    then show ?thesis by (simp add: traced_disabled)
  qed
qed

theorem ensureAuthenticated_logs_key_witness:
  "FetchAttributes (QStr ''k123'') \<in> set (fst (snd (snd
      (ensureAuthenticated_traced ''passport-tequila:*'' demo_strategy demo_env demo_back None))))
   \<and> debug_enabled ''passport-tequila:*'' debug_ns
   \<and> (\<exists>m \<in> set (map snd (fst (ensureAuthenticated_traced ''passport-tequila:*'' demo_strategy demo_env
        demo_back None))). sublist ''k123'' m)"
proof -
  have en: "debug_enabled ''passport-tequila:*'' debug_ns"
    by (simp add: debug_enabled_def debug_ns_def)
  have f: "FetchAttributes (QStr ''k123'') \<in> set (fst (snd (snd
      (ensureAuthenticated_traced ''passport-tequila:*'' demo_strategy demo_env demo_back None))))"
    by (simp add: ensureAuthenticated_traced_behaviour demo_back_run)
  show ?thesis using ensureAuthenticated_logs_key [OF f] en f by simp
qed

end
