(* ===== verification/Passport.thy ===== *)
theory Passport
  imports Gate
begin

text \<open>
  The strategy as a Passport strategy. \<^verbatim>\<open>src/lib/passport-tequila/strategy.js\<close> makes
  \<open>TequilaStrategy\<close> a subclass of Passport's base strategy
  (\<open>util.inherits(Strategy, passport.Strategy)\<close>, line 117) and gives its prototype the
  name \<open>tequila\<close> (line 119); the example application registers an instance with
  \<open>passport.use(tequila)\<close> (app.js line 31). A JavaScript object is modelled as the list
  of its own properties followed by those of its prototypes, and a property is looked up
  along that chain, the first object that has it winning (as a method is looked up along
  the superclass chain in Jinja). Passport's registry and its \<open>authenticate\<close> middleware
  are modelled from the library's documented behaviour. The lemmas show that the instance
  is registered under \<open>tequila\<close>, and that \<open>passport.authenticate('tequila')\<close> can only
  fail, since the class does not override the base class's \<open>authenticate\<close>.
\<close>

subsection \<open>Objects and prototype chains\<close>

datatype strategy_method = BaseAuthenticate | EnsureAuthenticatedM | GlobalLogoutM

datatype js_prop = PStr js_string | PMethod strategy_method | PProtocol protocol

type_synonym js_props = "js_string \<rightharpoonup> js_prop"

type_synonym js_obj = "js_props list"

fun js_lookup :: "js_obj \<Rightarrow> js_string \<Rightarrow> js_prop option" where
  "js_lookup [] k = None"
| "js_lookup (p # ps) k = (case p k of Some v \<Rightarrow> Some v | None \<Rightarrow> js_lookup ps k)"

text \<open>
  \<open>passport.Strategy.prototype\<close>: its \<open>authenticate\<close> throws
  \<open>Strategy#authenticate must be overridden by subclass\<close>.
\<close>

definition passport_Strategy_prototype :: js_props where
  "passport_Strategy_prototype = [''authenticate'' \<mapsto> PMethod BaseAuthenticate]"

text \<open>\<open>util.inherits(ctor, superCtor)\<close>: the prototype of \<open>ctor\<close> delegates to that of \<open>superCtor\<close>.\<close>

definition util_inherits :: "js_props \<Rightarrow> js_obj \<Rightarrow> js_obj" where
  "util_inherits ctor_proto super_chain = ctor_proto # super_chain"

definition strategy_name :: js_string where
  "strategy_name = ''tequila''"

definition Strategy_prototype :: js_obj where
  "Strategy_prototype = util_inherits [''name'' \<mapsto> PStr strategy_name] [passport_Strategy_prototype]"

text \<open>
  \<open>new TequilaStrategy(opts)\<close>: the constructor gives \<open>this\<close> the own properties
  \<open>protocol\<close>, \<open>ensureAuthenticated\<close> and \<open>globalLogout\<close> (lines 33, 44, 79).
\<close>

definition strategy_object :: "tequila_strategy \<Rightarrow> js_obj" where
  "strategy_object st =
     [''protocol'' \<mapsto> PProtocol (st_protocol st),
      ''ensureAuthenticated'' \<mapsto> PMethod EnsureAuthenticatedM,
      ''globalLogout'' \<mapsto> PMethod GlobalLogoutM] # Strategy_prototype"

subsection \<open>Passport's registry\<close>

datatype passport_error = NoStrategyName | UnknownStrategy js_string | AuthenticateNotOverridden
  | NotAFunction

type_synonym strategy_registry = "js_string \<rightharpoonup> js_obj"

text \<open>
  \<open>passport.use(strategy)\<close>: the strategy is registered under \<open>strategy.name\<close>; without a
  name Passport throws \<open>Authentication strategies must have a name\<close>.
\<close>

definition passport_use :: "strategy_registry \<Rightarrow> js_obj \<Rightarrow> passport_error + strategy_registry" where
  "passport_use reg s =
     (case js_lookup s ''name'' of
        Some (PStr n) \<Rightarrow> if n = [] then Inl NoStrategyName else Inr (reg(n \<mapsto> s))
      | _ \<Rightarrow> Inl NoStrategyName)"

text \<open>
  \<open>passport.authenticate(name)\<close> on a request: an unknown name is an error passed to
  \<open>next\<close>; otherwise the strategy's \<open>authenticate\<close> is called, and the base class's
  throws.
\<close>

definition passport_authenticate :: "strategy_registry \<Rightarrow> js_string \<Rightarrow> passport_error + strategy_method" where
  "passport_authenticate reg n =
     (case reg n of
        None \<Rightarrow> Inl (UnknownStrategy n)
      | Some s \<Rightarrow>
          (case js_lookup s ''authenticate'' of
             Some (PMethod BaseAuthenticate) \<Rightarrow> Inl AuthenticateNotOverridden
           | Some (PMethod m) \<Rightarrow> Inr m
           | _ \<Rightarrow> Inl NotAFunction))"

text \<open>\<open>passport.use(tequila)\<close> in the example application (app.js line 31).\<close>

definition demo_passport :: "passport_error + strategy_registry" where
  "demo_passport = passport_use Map.empty (strategy_object demo_strategy)"

subsection \<open>Lemmas\<close>

lemma strategy_object_lookup:
  "js_lookup (strategy_object st) ''name'' = Some (PStr ''tequila'')
   \<and> js_lookup (strategy_object st) ''authenticate'' = Some (PMethod BaseAuthenticate)
   \<and> js_lookup (strategy_object st) ''ensureAuthenticated'' = Some (PMethod EnsureAuthenticatedM)"
  by (simp add: strategy_object_def Strategy_prototype_def util_inherits_def
      passport_Strategy_prototype_def strategy_name_def)

text \<open>
  Every instance of the strategy is registered under the name \<open>tequila\<close>,
  found through its prototype, but \<open>passport.authenticate('tequila')\<close> on it always fails:
  the class inherits the base class's \<open>authenticate\<close>, which throws. The strategy can only
  protect routes through its own \<open>ensureAuthenticated\<close>.
\<close>

lemma passport_authenticate_tequila:
  "passport_use reg (strategy_object st) = Inr (reg(''tequila'' \<mapsto> strategy_object st))
   \<and> passport_authenticate (reg(''tequila'' \<mapsto> strategy_object st)) ''tequila''
       = Inl AuthenticateNotOverridden"
  using strategy_object_lookup [of st]
  by (simp add: passport_use_def passport_authenticate_def)

end
