(* ===== verification/App.thy ===== *)
theory App
  imports Gate
begin

text \<open>
  The example application \<^verbatim>\<open>src/examples/express-passport/app.js\<close>: Passport's session
  serialisation of the whole profile (lines 18--23) and the four routes (lines 50--66),
  \<^verbatim>\<open>/\<close> (public), \<^verbatim>\<open>/private\<close> (behind \<open>ensureAuthenticated\<close>), \<^verbatim>\<open>/logout\<close> (local
  logout) and \<^verbatim>\<open>/globallogout\<close> (\<open>globalLogout("/")\<close>). One request is \<open>app_handle\<close>:
  the route is chosen by the request's path and the gate's response is turned into what
  Express does with it (continue to the page, the error handler, or the redirect).
  Routes are matched as Express matches them: ignoring the case of ASCII letters and with
  an optional trailing slash (\<open>route_match\<close>). A run of several requests of one browser is \<open>app_run\<close>.
  The lemmas show that the private page is only ever rendered for the session's
  authenticated user, and that an authenticated browser stays so until it logs out.
\<close>

text \<open>\<open>serializeUser\<close>/\<open>deserializeUser\<close>: the whole profile is the session's content.\<close>

definition serializeUser :: "tequila_user \<Rightarrow> tequila_user" where
  "serializeUser user = user"

definition deserializeUser :: "tequila_user \<Rightarrow> tequila_user" where
  "deserializeUser obj = obj"

text \<open>\<open>req.user\<close> as \<open>passport.session()\<close> restores it from the session.\<close>

definition req_user :: "session \<Rightarrow> tequila_user option" where
  "req_user sess = map_option (deserializeUser \<circ> serializeUser) sess"

datatype app_response =
    Render js_string "tequila_user option"
  | AppRedirect js_string
  | AppError tequila_error
  | NotFound

text \<open>
  What Express does with a handler's outcome: \<open>next()\<close> continues to the route's page
  (to a 404 when there is none), \<open>next(error)\<close> goes to the error handler, a redirect is
  sent.
\<close>

definition route_result :: "js_string option \<Rightarrow> gate_result \<Rightarrow> session \<times> call list \<times> app_response" where
  "route_result page r =
     (case r of
        (sess', calls, Next) \<Rightarrow>
          (sess', calls, case page of Some p \<Rightarrow> Render p (req_user sess') | None \<Rightarrow> NotFound)
      | (sess', calls, NextError e) \<Rightarrow> (sess', calls, AppError e)
      | (sess', calls, Redirect u) \<Rightarrow> (sess', calls, AppRedirect u))"

text \<open>
  Express's route matching (\<open>path-to-regexp\<close> with its defaults \<open>sensitive: false\<close> and
  \<open>strict: false\<close>): the request's path matches a route ignoring the case of ASCII
  letters, with an optional trailing slash (a route ending in \<open>/\<close> also matches without
  it).
\<close>

definition route_match :: "js_string \<Rightarrow> js_string \<Rightarrow> bool" where
  "route_match route path =
     (let p = map to_lower_ascii path; r = map to_lower_ascii route
      in if r \<noteq> [] \<and> last r = CHR ''/'' then p = r \<or> p = butlast r else p = r \<or> p = r @ ''/'')"

definition app_handle ::
  "tequila_strategy \<Rightarrow> gate_env \<Rightarrow> request \<Rightarrow> session \<Rightarrow> session \<times> call list \<times> app_response" where
  "app_handle st env req sess =
     (let path = url_pathname (originalUrl req) in
      if route_match ''/'' path then (sess, [], Render ''index'' (req_user sess))
      else if route_match ''/private'' path then route_result (Some ''private'') (ensureAuthenticated st env req sess)
      else if route_match ''/logout'' path then (None, [Logout], AppRedirect ''/'')
      else if route_match ''/globallogout'' path then route_result None (globalLogout st ''/'' req sess)
      else (sess, [], NotFound))"

text \<open>A browser's requests in order, each with the environment's answers at that time.\<close>

fun app_run ::
  "tequila_strategy \<Rightarrow> (gate_env \<times> request) list \<Rightarrow> session \<Rightarrow> session \<times> app_response list" where
  "app_run st [] sess = (sess, [])"
| "app_run st ((env, req) # rs) sess =
     (let (sess', calls, resp) = app_handle st env req sess;
          (sess'', resps) = app_run st rs sess'
      in (sess'', resp # resps))"

subsection \<open>Lemmas\<close>

lemma route_match_private [simp]:
  "route_match ''/private'' ''/private'' \<and> \<not> route_match ''/'' ''/private''
   \<and> \<not> route_match ''/logout'' ''/private'' \<and> \<not> route_match ''/globallogout'' ''/private''"
  by (simp add: route_match_def to_lower_ascii_def)

lemma req_user_id [simp]: "req_user s = s"
  by (cases s) (simp_all add: req_user_def serializeUser_def deserializeUser_def)

lemma gate_step_refl: "gate_step st s s"
proof (cases s)
  case None
  then show ?thesis by (simp add: gate_step.local_logout)
next
  case (Some u)
  have "ensureAuthenticated st env req s = (s, [], Next)" for env req
    using Some by (simp add: ensureAuthenticated_def)
  then show ?thesis by (rule gate_step.request)
qed

lemma route_result_session: "fst (route_result page r) = fst r"
  by (simp add: route_result_def split: prod.split response.split)

lemma app_handle_gate_step: "gate_step st s (fst (app_handle st env req s))"
proof -
  have ens: "gate_step st s (fst (ensureAuthenticated st env req s))"
    by (rule gate_step.request [of st env req s _ "fst (snd (ensureAuthenticated st env req s))"
          "snd (snd (ensureAuthenticated st env req s))"]) simp
  have glo: "gate_step st s (fst (globalLogout st ''/'' req s))"
    by (rule gate_step.global_logout [of st "''/''" req s _ "fst (snd (globalLogout st ''/'' req s))"
          "snd (snd (globalLogout st ''/'' req s))"]) simp
  show ?thesis
    using ens glo gate_step_refl [of st s] gate_step.local_logout [of st s]
    by (simp add: app_handle_def route_result_session Let_def)
qed

lemma app_handle_authenticated:
  assumes "\<not> route_match ''/logout'' (url_pathname (originalUrl req))
      \<and> \<not> route_match ''/globallogout'' (url_pathname (originalUrl req))"
  shows "fst (app_handle st env req (Some u)) = Some u
    \<and> (snd (snd (app_handle st env req (Some u))) = NotFound
       \<or> (\<exists>p. snd (snd (app_handle st env req (Some u))) = Render p (Some u)))"
  using assms by (simp add: app_handle_def route_result_def ensureAuthenticated_def Let_def)

lemma app_run_Cons_fst:
  "fst (app_run st ((env, req) # rs) s) = fst (app_run st rs (fst (app_handle st env req s)))"
  by (simp split: prod.split)

text \<open>
  C20 (refinement). The application adds no session transitions of its own: every session
  a browser's run of requests reaches, from a reachable state, is a reachable state of the
  gate's step relation \<open>gate_step\<close>, so every invariant of the gate holds in it.
\<close>

theorem app_run_reachable: "reachable st s \<Longrightarrow> reachable st (fst (app_run st rs s))"
proof (induction rs arbitrary: s)
  case Nil
  then show ?case by simp
next
  case (Cons p rs)
  obtain env req where p: "p = (env, req)" by (cases p)
  have "reachable st (fst (app_handle st env req s))"
    using Cons.prems app_handle_gate_step by (rule reachable.step)
  then have "reachable st (fst (app_run st rs (fst (app_handle st env req s))))"
    by (rule Cons.IH)
  then show ?case by (simp only: p app_run_Cons_fst)
qed

lemma app_handle_render:
  assumes "app_handle st env req s = (s', calls, Render p u)"
  shows "u = s' \<and> s' = s \<and> calls = [] \<and> (p = ''private'' \<longrightarrow> s \<noteq> None)"
proof (cases s)
  case None
  have "snd (snd (ensureAuthenticated st env req None)) \<noteq> Next"
    using ensureAuthenticated_None_cases [of st env req _ _ "snd (snd (ensureAuthenticated st env req None))"]
    by (metis prod.collapse response.distinct(1,3))
  with None assms show ?thesis
    by (auto simp: app_handle_def route_result_def globalLogout_def Let_def
        split: if_splits prod.splits response.splits option.splits)
next
  case (Some v)
  with assms show ?thesis
    by (auto simp: app_handle_def route_result_def globalLogout_def ensureAuthenticated_def Let_def
        split: if_splits)
qed

lemma app_run_private_wf:
  "session_wf s \<Longrightarrow> Render ''private'' (Some u) \<in> set (snd (app_run st rs s)) \<Longrightarrow> user_wf u"
proof (induction rs arbitrary: s)
  case Nil
  then show ?case by simp
next
  case (Cons p rs)
  obtain env req where p: "p = (env, req)" by (cases p)
  obtain s' calls resp where h: "app_handle st env req s = (s', calls, resp)"
    by (cases "app_handle st env req s") auto
  have wf': "session_wf s'"
    using gate_step_session_wf [OF app_handle_gate_step [of st s env req] Cons.prems(1)] h by simp
  show ?case
  proof (cases "resp = Render ''private'' (Some u)")
    case True
    with h app_handle_render [of st env req s s' calls "''private''" "Some u"]
    have "s' = Some u" by simp
    with wf' show ?thesis by (simp add: session_wf_def)
  next
    case False
    with Cons.prems(2) p h have "Render ''private'' (Some u) \<in> set (snd (app_run st rs s'))"
      by (auto split: prod.splits)
    with wf' show ?thesis by (rule Cons.IH)
  qed
qed

theorem app_run_reachable_witness:
  "reachable demo_strategy None
   \<and> reachable demo_strategy (fst (app_run demo_strategy [(demo_env, demo_first), (demo_env, demo_back)] None))"
  using app_run_reachable [OF reachable.start, of demo_strategy "[(demo_env, demo_first), (demo_env, demo_back)]"]
  by (simp add: reachable.start)

lemma demo_handshake_run:
  "app_run demo_strategy [(demo_env, demo_first), (demo_env, demo_back), (demo_env, demo_first)] None =
     (Some (teqResult2User [(''user'', ''lecom''), (''displayname'', ''Claude Lecommandeur'')]),
      [AppRedirect ''https://tequila.epfl.ch/cgi-bin/tequila/requestauth?requestkey=k123'',
       AppRedirect ''http://localhost:3000/private?lang=fr'',
       Render ''private'' (Some (teqResult2User [(''user'', ''lecom''), (''displayname'', ''Claude Lecommandeur'')]))])"
proof -
  have p1: "url_pathname (originalUrl demo_first) = ''/private''"
    by (simp add: url_pathname_def demo_first_def)
  have p2: "url_pathname (originalUrl demo_back) = ''/private''"
    by (simp add: url_pathname_def demo_back_def)
  show ?thesis
    using p1 p2 demo_first_run demo_back_run
    by (simp add: app_handle_def route_result_def ensureAuthenticated_def)
qed

text \<open>
  C19 (safety). The example application renders its private page only for an
  authenticated session, to that session's user, without any remote call.
\<close>

theorem app_private_only_authenticated:
  assumes "app_handle st env req s = (s', calls, Render ''private'' u)"
  shows "\<exists>user. s = Some user \<and> u = Some user \<and> s' = s \<and> calls = []"
  using app_handle_render [OF assms] by auto

theorem app_private_only_authenticated_witness:
  "\<exists>user. Some (teqResult2User []) = Some user \<and> Some (teqResult2User []) = Some user"
proof -
  have p: "url_pathname (originalUrl demo_first) = ''/private''"
    by (simp add: url_pathname_def demo_first_def)
  have "app_handle demo_strategy demo_env demo_first (Some (teqResult2User [])) =
      (Some (teqResult2User []), [], Render ''private'' (Some (teqResult2User [])))"
    using p by (simp add: app_handle_def route_result_def ensureAuthenticated_def)
  from app_private_only_authenticated [OF this] show ?thesis by auto
qed

text \<open>
  C21 (safety). In any run of requests of one browser, starting logged out, whenever the
  private page is rendered for a user, that user is a well-formed Tequila profile.
\<close>

theorem app_private_user_wf:
  "Render ''private'' (Some u) \<in> set (snd (app_run st rs None)) \<Longrightarrow> user_wf u"
  using app_run_private_wf [of None] by (simp add: session_wf_def)

theorem app_private_user_wf_witness:
  "Render ''private'' (Some (teqResult2User [(''user'', ''lecom''), (''displayname'', ''Claude Lecommandeur'')]))
     \<in> set (snd (app_run demo_strategy [(demo_env, demo_first), (demo_env, demo_back), (demo_env, demo_first)] None))
   \<and> user_wf (teqResult2User [(''user'', ''lecom''), (''displayname'', ''Claude Lecommandeur'')])"
proof -
  have r: "Render ''private'' (Some (teqResult2User [(''user'', ''lecom''), (''displayname'', ''Claude Lecommandeur'')]))
     \<in> set (snd (app_run demo_strategy [(demo_env, demo_first), (demo_env, demo_back), (demo_env, demo_first)] None))"
    by (simp only: demo_handshake_run) simp
  from r app_private_user_wf [OF r] show ?thesis by (rule conjI)
qed

text \<open>
  C34 (invariant). Once a browser is authenticated it stays so: along any run of requests
  that does not visit \<^verbatim>\<open>/logout\<close> or \<^verbatim>\<open>/globallogout\<close>, the session keeps the
  same user and every response renders a page for that user (or is a 404), so no request
  is sent back through the handshake, whatever the identity server does.
\<close>

theorem app_run_stays_authenticated:
  assumes "\<forall>(env, req) \<in> set rs. \<not> route_match ''/logout'' (url_pathname (originalUrl req))
      \<and> \<not> route_match ''/globallogout'' (url_pathname (originalUrl req))"
  shows "fst (app_run st rs (Some u)) = Some u
    \<and> (\<forall>r \<in> set (snd (app_run st rs (Some u))). r = NotFound \<or> (\<exists>p. r = Render p (Some u)))"
  using assms
proof (induction rs)
  case Nil
  then show ?case by simp
next
  case (Cons p rs)
  obtain env req where p: "p = (env, req)" by (cases p)
  from Cons.prems p have path: "\<not> route_match ''/logout'' (url_pathname (originalUrl req))
      \<and> \<not> route_match ''/globallogout'' (url_pathname (originalUrl req))" by auto
  from Cons.prems have IH: "fst (app_run st rs (Some u)) = Some u
    \<and> (\<forall>r \<in> set (snd (app_run st rs (Some u))). r = NotFound \<or> (\<exists>p. r = Render p (Some u)))"
    by (intro Cons.IH) auto
  obtain calls resp where h: "app_handle st env req (Some u) = (Some u, calls, resp)"
    and resp: "resp = NotFound \<or> (\<exists>p. resp = Render p (Some u))"
    using app_handle_authenticated [OF path, of st env u] by (cases "app_handle st env req (Some u)") auto
  show ?case using IH h resp p by (auto split: prod.split)
qed

theorem app_run_stays_authenticated_witness:
  "fst (app_run demo_strategy [(demo_env, demo_first), (demo_env, demo_back)] (Some (teqResult2User [])))
     = Some (teqResult2User [])"
proof -
  have "\<forall>(env, req) \<in> set [(demo_env, demo_first), (demo_env, demo_back)].
      \<not> route_match ''/logout'' (url_pathname (originalUrl req))
      \<and> \<not> route_match ''/globallogout'' (url_pathname (originalUrl req))"
    by (simp add: url_pathname_def demo_first_def demo_back_def)
  from app_run_stays_authenticated [OF this, of demo_strategy "teqResult2User []"] show ?thesis by simp
qed

end
