(* ===== verification/Express.thy ===== *)
theory Express
  imports App
begin

text \<open>
  How the example application is wired (\<^verbatim>\<open>src/examples/express-passport/app.js\<close>,
  lines 33--68), and what Express and Passport's session middleware do with that wiring.
\<close>

subsection \<open>The application's layers\<close>

text \<open>
  The middleware \<open>app.use\<close> installs (lines 37--49) and the route handlers \<open>app.get\<close>
  installs (lines 50--66). Only \<open>expressSession\<close> and \<open>passport.session()\<close> act on what
  this model observes: the first loads the session of the request's cookie, the second
  restores \<open>req.user\<close> from it. The others (request logging, cookie and body parsing,
  method override, Passport's initialisation) leave session and user alone.
\<close>

datatype middleware =
    Morgan js_string
  | CookieParser
  | BodyParserUrlencoded bool
  | MethodOverride
  | ExpressSession js_string bool bool
  | PassportInitialize
  | PassportSession

datatype handler =
    RenderPage js_string
  | EnsureAuthenticated
  | LocalLogout js_string
  | GlobalLogout js_string

text \<open>
  Express's router is one list of layers in registration order: a middleware matches
  every path, a route handler the path it was registered for; \<open>app.get(p, h1, h2)\<close>
  installs two handlers for \<open>p\<close>, and \<open>next()\<close> passes to the next matching layer.
\<close>

datatype layer = MwLayer middleware | RouteLayer js_string handler

record express_app =
  app_settings :: "(js_string \<times> js_string) list"
  app_layers :: "layer list"

datatype app_call =
    AppSet js_string js_string
  | AppUse middleware
  | AppGet js_string "handler list"

fun app_apply :: "express_app \<Rightarrow> app_call \<Rightarrow> express_app" where
  "app_apply app (AppSet k v) = app\<lparr>app_settings := app_settings app @ [(k, v)]\<rparr>"
| "app_apply app (AppUse m) = app\<lparr>app_layers := app_layers app @ [MwLayer m]\<rparr>"
| "app_apply app (AppGet p hs) = app\<lparr>app_layers := app_layers app @ map (RouteLayer p) hs\<rparr>"

definition express :: express_app where
  "express = \<lparr>app_settings = [], app_layers = []\<rparr>"

text \<open>The calls of app.js, lines 35--66, in order; \<open>dirname\<close> is \<open>__dirname\<close>.\<close>

definition demo_app_calls :: "js_string \<Rightarrow> app_call list" where
  "demo_app_calls dirname =
     [AppSet ''views'' (dirname @ ''/views''),
      AppSet ''view engine'' ''ejs'',
      AppUse (Morgan ''dev''),
      AppUse CookieParser,
      AppUse (BodyParserUrlencoded False),
      AppUse MethodOverride,
      AppUse (ExpressSession ''keyboard cat'' False False),
      AppUse PassportInitialize,
      AppUse PassportSession,
      AppGet ''/'' [RenderPage ''index''],
      AppGet ''/private'' [EnsureAuthenticated, RenderPage ''private''],
      AppGet ''/logout'' [LocalLogout ''/''],
      AppGet ''/globallogout'' [GlobalLogout ''/'']]"

definition demo_app :: "js_string \<Rightarrow> express_app" where
  "demo_app dirname = foldl app_apply express (demo_app_calls dirname)"

text \<open>
  \<open>process.env.PORT || 3000\<close> (line 68): the variable's string when it is set and non-empty,
  otherwise the number 3000.
\<close>

definition portNumber :: "js_string option \<Rightarrow> js_value" where
  "portNumber env_port =
     (case env_port of Some s \<Rightarrow> if s \<noteq> [] then JStr s else JNum 3000 | None \<Rightarrow> JNum 3000)"

subsection \<open>Dispatch\<close>

text \<open>
  One request through the layers. The state is the session in the store, whether the
  session middleware has loaded it, and \<open>req.user\<close>. A handler's new session is written
  back to the store only when the store was loaded. \<open>next(error)\<close> goes to Express's
  default error handler, \<open>next()\<close> past the last layer to its 404.
\<close>

fun run_layers ::
  "tequila_strategy \<Rightarrow> gate_env \<Rightarrow> request \<Rightarrow> session \<Rightarrow> bool \<Rightarrow> session \<Rightarrow> layer list
   \<Rightarrow> session \<times> call list \<times> app_response" where
  "run_layers st env req store loaded u [] = (store, [], NotFound)"
| "run_layers st env req store loaded u (MwLayer m # ls) =
     (case m of
        ExpressSession _ _ _ \<Rightarrow> run_layers st env req store True u ls
      | PassportSession \<Rightarrow> run_layers st env req store loaded (if loaded then req_user store else u) ls
      | _ \<Rightarrow> run_layers st env req store loaded u ls)"
| "run_layers st env req store loaded u (RouteLayer p h # ls) =
     (if \<not> route_match p (url_pathname (originalUrl req)) then run_layers st env req store loaded u ls
      else (let save = (\<lambda>s'. if loaded then s' else store) in
        case h of
          RenderPage page \<Rightarrow> (store, [], Render page u)
        | LocalLogout url \<Rightarrow> (save None, [Logout], AppRedirect url)
        | GlobalLogout url \<Rightarrow>
            (case globalLogout st url req u of
               (s', calls, Next) \<Rightarrow>
                 (let (s'', calls', r) = run_layers st env req (save s') loaded s' ls
                  in (s'', calls @ calls', r))
             | (s', calls, NextError e) \<Rightarrow> (save s', calls, AppError e)
             | (s', calls, Redirect url') \<Rightarrow> (save s', calls, AppRedirect url'))
        | EnsureAuthenticated \<Rightarrow>
            (case ensureAuthenticated st env req u of
               (s', calls, Next) \<Rightarrow>
                 (let (s'', calls', r) = run_layers st env req (save s') loaded s' ls
                  in (s'', calls @ calls', r))
             | (s', calls, NextError e) \<Rightarrow> (save s', calls, AppError e)
             | (s', calls, Redirect url) \<Rightarrow> (save s', calls, AppRedirect url))))"

definition express_handle ::
  "tequila_strategy \<Rightarrow> express_app \<Rightarrow> gate_env \<Rightarrow> request \<Rightarrow> session
   \<Rightarrow> session \<times> call list \<times> app_response" where
  "express_handle st app env req store = run_layers st env req store False None (app_layers app)"

subsection \<open>The wiring implements the application\<close>

lemma demo_app_layers:
  "app_layers (demo_app d) =
     [MwLayer (Morgan ''dev''), MwLayer CookieParser, MwLayer (BodyParserUrlencoded False),
      MwLayer MethodOverride, MwLayer (ExpressSession ''keyboard cat'' False False),
      MwLayer PassportInitialize, MwLayer PassportSession,
      RouteLayer ''/'' (RenderPage ''index''),
      RouteLayer ''/private'' EnsureAuthenticated, RouteLayer ''/private'' (RenderPage ''private''),
      RouteLayer ''/logout'' (LocalLogout ''/''), RouteLayer ''/globallogout'' (GlobalLogout ''/'')]"
  by (simp add: demo_app_def demo_app_calls_def express_def)

text \<open>
  C32 (refinement). The application as app.js wires it, its middleware in the order
  installed and its routes, run through Express's router (paths matched as Express does by
  default: ASCII case-insensitively, with an optional trailing slash), handles every request
  exactly as
  \<open>app_handle\<close> of theory \<open>App\<close>: so the properties proved there (C19--C21, C34) hold of
  the wired application.
\<close>

theorem express_handle_demo_app:
  "express_handle st (demo_app d) env req sess = app_handle st env req sess"
  by (simp add: express_handle_def demo_app_layers app_handle_def route_result_def globalLogout_def
      Let_def split: prod.split response.split)

end
