(* ===== verification/QueryParser.thy ===== *)
theory QueryParser
  imports Gate
begin

text \<open>
  Express's reading of a request URL into \<open>req.query\<close>, which the gate tests for
  \<open>key\<close> (strategy.js line 47): \<open>url.parse(originalUrl).query\<close>, the text after the
  first \<open>?\<close> up to a \<open>#\<close>, parsed by the \<open>qs\<close> library. The library is not part of
  the sources; it is modelled from its documented behaviour: the query is split at \<open>&\<close>,
  each part at its first \<open>=\<close> into name and value (a part without \<open>=\<close> has the empty
  value), name and value are decoded (\<open>+\<close> is a space, then \<open>%XX\<close> escapes are
  decoded; a string with a malformed escape is kept with only \<open>+\<close> replaced), parts with
  an empty name are skipped, and a repeated name collects its values in an array. Escapes
  are decoded to single bytes, which is exact for ASCII and keeps any multi-byte character
  distinct from ASCII names; the bracket syntax of nested objects (\<open>key[]=\<close>,
  \<open>key[a]=\<close>) and the parameter limit are not modelled: a name with brackets is read as
  its literal text.
\<close>

definition url_search :: "js_string \<Rightarrow> js_string" where
  "url_search u =
     (if CHR ''?'' \<in> set u then takeWhile (\<lambda>c. c \<noteq> CHR ''#'') (url_query u) else [])"

definition param_value :: "js_string \<Rightarrow> js_string" where
  "param_value part =
     (if CHR ''='' \<in> set part then drop (Suc (length (param_name part))) part else [])"

definition hex_val :: "char \<Rightarrow> nat option" where
  "hex_val c = map_of (zip ''0123456789abcdefABCDEF''
     [0, 1, 2, 3, 4, 5, 6, 7, 8, 9, 10, 11, 12, 13, 14, 15, 10, 11, 12, 13, 14, 15]) c"

fun pct_decode :: "js_string \<Rightarrow> js_string option" where
  "pct_decode [] = Some []"
| "pct_decode (c # cs) =
     (if c = CHR ''%'' then
        (case cs of
           a # b # rest \<Rightarrow>
             (case (hex_val a, hex_val b) of
                (Some x, Some y) \<Rightarrow> map_option (Cons (char_of (16 * x + y))) (pct_decode rest)
              | _ \<Rightarrow> None)
         | _ \<Rightarrow> None)
      else map_option (Cons c) (pct_decode cs))"

definition plus_space :: "char \<Rightarrow> char" where
  "plus_space c = (if c = CHR ''+'' then CHR '' '' else c)"

text \<open>\<open>qs\<close>'s decoder: \<open>decodeURIComponent(str.replace(/\+/g, ' '))\<close>, or the replaced string when that throws.\<close>

definition qs_decode :: "js_string \<Rightarrow> js_string" where
  "qs_decode s = (let s' = map plus_space s in case pct_decode s' of Some d \<Rightarrow> d | None \<Rightarrow> s')"

fun qs_combine :: "query_value option \<Rightarrow> js_string \<Rightarrow> query_value" where
  "qs_combine None v = QStr v"
| "qs_combine (Some (QStr a)) v = QArr [a, v]"
| "qs_combine (Some (QArr xs)) v = QArr (xs @ [v])"

definition qs_step :: "(js_string \<rightharpoonup> query_value) \<Rightarrow> js_string \<Rightarrow> (js_string \<rightharpoonup> query_value)" where
  "qs_step m part =
     (let key = qs_decode (param_name part)
      in if key = [] then m else m(key \<mapsto> qs_combine (m key) (qs_decode (param_value part))))"

definition qs_parse :: "js_string \<Rightarrow> (js_string \<rightharpoonup> query_value)" where
  "qs_parse q = foldl qs_step Map.empty (js_split (CHR ''&'') q)"

definition parsed_query :: "js_string \<Rightarrow> (js_string \<rightharpoonup> query_value)" where
  "parsed_query u = qs_parse (url_search u)"

lemma query_params_subset: "t \<in> set (query_params u) \<Longrightarrow> set t \<subseteq> set u"
proof -
  assume t: "t \<in> set (query_params u)"
  then have q: "CHR ''?'' \<in> set u" by (simp add: query_params_def split: if_splits)
  let ?q = "js_split (CHR ''?'') u ! 1"
  from q have "1 < length (js_split (CHR ''?'') u)"
    using length_js_split_ge2 [of "CHR ''?''" u] by simp
  then have "?q \<in> set (js_split (CHR ''?'') u)" by (rule nth_mem)
  then have "set ?q \<subseteq> set u" by (rule js_split_pieces_subset)
  moreover from t q have "t \<in> set (js_split (CHR ''&'') ?q)"
    by (simp add: query_params_def Let_def split: if_splits)
  ultimately show ?thesis using js_split_pieces_subset by blast
qed

subsection \<open>The parser reads a name from the tokens the sanitizer gives that name\<close>

lemma foldl_qs_step:
  "k \<noteq> [] \<Longrightarrow> foldl qs_step m ts k =
     foldl (\<lambda>acc v. Some (qs_combine acc v)) (m k)
       (map (qs_decode \<circ> param_value) (filter (\<lambda>t. qs_decode (param_name t) = k) ts))"
  by (induction ts arbitrary: m) (auto simp: qs_step_def Let_def)

lemma foldl_qs_combine_None:
  "foldl (\<lambda>acc v. Some (qs_combine acc v)) a vs = None \<longleftrightarrow> a = None \<and> vs = []"
  by (induction vs arbitrary: a) auto

lemma qs_parse_None:
  "k \<noteq> [] \<Longrightarrow>
   qs_parse q k = None \<longleftrightarrow> (\<forall>t \<in> set (js_split (CHR ''&'') q). qs_decode (param_name t) \<noteq> k)"
  by (simp add: qs_parse_def foldl_qs_step foldl_qs_combine_None filter_empty_conv)

lemma pct_decode_no_pct: "CHR ''%'' \<notin> set s \<Longrightarrow> pct_decode s = Some s"
  by (induction s) auto

lemma qs_decode_no_pct: "CHR ''%'' \<notin> set s \<Longrightarrow> qs_decode s = map plus_space s"
proof -
  assume "CHR ''%'' \<notin> set s"
  then have "CHR ''%'' \<notin> set (map plus_space s)" by (auto simp: plus_space_def)
  then show ?thesis by (simp add: qs_decode_def pct_decode_no_pct)
qed

lemma map_plus_space_eq: "map plus_space s = k \<Longrightarrow> CHR '' '' \<notin> set k \<Longrightarrow> s = k"
  by (induction s arbitrary: k) (auto simp: plus_space_def split: if_splits)

lemma param_name_subset: "set (param_name t) \<subseteq> set t"
  by (auto simp: param_name_def hd_js_split dest: set_takeWhileD)

lemma removeParam_parsed_no_key:
  assumes "k \<noteq> []" and "CHR ''#'' \<notin> set u" and "CHR ''%'' \<notin> set u" and "CHR '' '' \<notin> set k"
  shows "parsed_query (removeParam k u) k = None"
proof -
  let ?kept = "filter (\<lambda>t. param_name t \<noteq> k) (query_params u)"
  show ?thesis
  proof (cases "?kept = []")
    case True
    then show ?thesis
      using url_path_no_question [of u] assms(1)
      by (simp add: removeParam_closed parsed_query_def url_search_def qs_parse_def qs_step_def param_name_def
          qs_decode_def)
  next
    case False
    have toks: "\<forall>t \<in> set ?kept. CHR ''&'' \<notin> set t \<and> CHR ''?'' \<notin> set t"
      using query_params_tokens by auto
    have q: "url_query (url_path u @ CHR ''?'' # js_join (CHR ''&'') ?kept) = js_join (CHR ''&'') ?kept"
      using url_path_query_append [OF url_path_no_question] by blast
    have nohash: "\<forall>t \<in> set ?kept. CHR ''#'' \<notin> set t"
      using query_params_subset assms(2) by fastforce
    then have "CHR ''#'' \<notin> set (js_join (CHR ''&'') ?kept)"
      by (intro js_join_no_char) auto
    then have search: "url_search (removeParam k u) = js_join (CHR ''&'') ?kept"
      using False q by (auto simp: removeParam_closed url_search_def takeWhile_eq_all_conv)
    have "js_split (CHR ''&'') (js_join (CHR ''&'') ?kept) = ?kept"
      using False toks by (intro js_split_join) auto
    moreover have "\<forall>t \<in> set ?kept. qs_decode (param_name t) \<noteq> k"
    proof
      fix t assume t: "t \<in> set ?kept"
      then have "CHR ''%'' \<notin> set (param_name t)"
        using query_params_subset param_name_subset assms(3) by fastforce
      then show "qs_decode (param_name t) \<noteq> k"
        using t map_plus_space_eq [of "param_name t" k] assms(4) by (auto simp: qs_decode_no_pct)
    qed
    ultimately show ?thesis
      using search assms(1) by (simp add: parsed_query_def qs_parse_None)
  qed
qed

text \<open>
  The sanitizer compares the raw name of a parameter, Express the decoded one: a key sent
  percent-encoded is not removed, and Express still reads it as \<open>key\<close>.
\<close>

lemma encoded_key_survives:
  "removeParam ''key'' ''/private?k%65y=abc'' = ''/private?k%65y=abc''
   \<and> parsed_query ''/private?k%65y=abc'' ''key'' = Some (QStr ''abc'')"
  by (simp add: removeParam_def param_name_def js_splice1_def parsed_query_def url_search_def
      url_query_def url_path_def qs_parse_def qs_step_def param_value_def qs_decode_def
      plus_space_def hex_val_def char_of_def bit_simps)

text \<open>
  C35 (safety). The sanitizer and Express's parser agree on what the \<open>key\<close> parameter
  is: when the browser follows the post-login redirect to the URL \<open>removeParam\<close> made
  (one without a fragment), Express finds no \<open>key\<close> in it, so the gate does not try to
  exchange the consumed key a second time.
\<close>

theorem sanitized_request_no_key:
  assumes "CHR ''#'' \<notin> set u" and "CHR ''%'' \<notin> set u" and "CHR ''['' \<notin> set u"
    and "originalUrl req = removeParam ''key'' u"
    and "query req = Some (parsed_query (originalUrl req))"
  shows "key_param req = None"
  using removeParam_parsed_no_key [of "''key''" u] assms
  by (simp add: key_param_def query_key_def)

theorem sanitized_request_no_key_witness:
  "CHR ''#'' \<notin> set ''/private?key=k123&lang=fr'' \<and> CHR ''%'' \<notin> set ''/private?key=k123&lang=fr''
   \<and> CHR ''['' \<notin> set ''/private?key=k123&lang=fr''
   \<and> key_param \<lparr>originalUrl = removeParam ''key'' ''/private?key=k123&lang=fr'',
        query = Some (parsed_query (removeParam ''key'' ''/private?key=k123&lang=fr'')),
        req_base = ''http://localhost:3000''\<rparr> = None"
  using sanitized_request_no_key [of "''/private?key=k123&lang=fr''"
      "\<lparr>originalUrl = removeParam ''key'' ''/private?key=k123&lang=fr'',
        query = Some (parsed_query (removeParam ''key'' ''/private?key=k123&lang=fr'')),
        req_base = ''http://localhost:3000''\<rparr>"]
  by simp

end
