(* ===== verification/Handshake.thy ===== *)
theory Handshake
  imports Express QueryParser
begin

text \<open>
  The whole handshake as a browser lives it: the browser requests a path of the example
  application, wired as app.js wires it (theory \<open>Express\<close>), with \<open>req.query\<close> parsed
  from the path by Express (theory \<open>QueryParser\<close>); it follows every redirect, back to the
  application when the target is on the application's origin, and through the identity
  server's login otherwise, after which the server sends it back to the URL the
  application gave in \<^verbatim>\<open>createrequest\<close>, with the key appended. The identity server's
  side is modelled from the specification (section 4.2).
\<close>

text \<open>The request Express builds for a path of this origin.\<close>

definition browser_request :: "js_string \<Rightarrow> js_string \<Rightarrow> request" where
  "browser_request base path = \<lparr>originalUrl = path, query = Some (parsed_query path), req_base = base\<rparr>"

text \<open>The identity server sends the browser back to \<open>urlaccess\<close> with the key appended.\<close>

definition tequila_return :: "js_string \<Rightarrow> js_string \<Rightarrow> js_string" where
  "tequila_return urlaccess k =
     urlaccess @ (if CHR ''?'' \<in> set urlaccess then ''&key='' else ''?key='') @ k"

text \<open>
  The browser following redirects, for at most \<open>n\<close> requests: a redirect on the
  application's origin \<open>base\<close> is followed to its path; any other goes through \<open>idp\<close>, the
  identity server's login page, which answers with the URL it sends the browser back to.
  \<open>None\<close>: the requests ran out before a page was shown.
\<close>

fun browse ::
  "tequila_strategy \<Rightarrow> js_string \<Rightarrow> gate_env \<Rightarrow> (js_string \<Rightarrow> js_string) \<Rightarrow> js_string \<Rightarrow> nat
   \<Rightarrow> js_string \<Rightarrow> session \<Rightarrow> (session \<times> app_response) option" where
  "browse st d env idp base 0 path s = None"
| "browse st d env idp base (Suc n) path s =
     (case express_handle st (demo_app d) env (browser_request base path) s of
        (s', calls, AppRedirect u) \<Rightarrow>
          (let u' = (if take (length base) u = base then u else idp u)
           in browse st d env idp base n (drop (length base) u') s')
      | (s', calls, resp) \<Rightarrow> Some (s', resp))"

subsection \<open>Lemmas\<close>

lemma parsed_query_key:
  assumes "k \<noteq> []" "CHR ''&'' \<notin> set k" "CHR ''#'' \<notin> set k" "CHR ''?'' \<notin> set k"
    "CHR ''%'' \<notin> set k" "CHR ''+'' \<notin> set k"
  shows "parsed_query (''/private?key='' @ k) ''key'' = Some (QStr k)"
proof -
  have tw: "takeWhile (\<lambda>c. c \<noteq> CHR ''#'') k = k"
    using assms(3) by (auto simp: takeWhile_eq_all_conv)
  have s: "url_search (''/private?key='' @ k) = ''key='' @ k"
    using tw by (simp add: url_search_def url_query_def url_path_def)
  have sp: "js_split (CHR ''&'') (''key='' @ k) = [''key='' @ k]"
    using assms(2) by (intro js_split_no_sep) simp
  have pn: "param_name (''key='' @ k) = ''key''"
    by (simp add: param_name_def hd_js_split)
  have pv: "param_value (''key='' @ k) = k"
    using pn by (simp add: param_value_def)
  have "map plus_space k = k"
    using assms(6) by (induction k) (auto simp: plus_space_def)
  then have dk: "qs_decode k = k" using assms(5) by (simp add: qs_decode_no_pct)
  have dkey: "qs_decode ''key'' = ''key''" by (simp add: qs_decode_def plus_space_def)
  show ?thesis
    unfolding parsed_query_def s qs_parse_def sp
    by (simp only: foldl_Cons foldl_Nil qs_step_def pn pv dk dkey Let_def) simp
qed

lemma parsed_query_private: "parsed_query ''/private'' = Map.empty"
  by (simp add: parsed_query_def url_search_def qs_parse_def qs_step_def param_name_def qs_decode_def)


lemma express_handle_private:
  "url_pathname (originalUrl req) = ''/private'' \<Longrightarrow>
   express_handle st (demo_app d) env req s = route_result (Some ''private'') (ensureAuthenticated st env req s)"
  by (simp add: express_handle_def demo_app_layers route_result_def Let_def split: prod.split response.split)

lemma removeParam_key_only:
  assumes "CHR ''?'' \<notin> set base" "CHR ''?'' \<notin> set k" "CHR ''&'' \<notin> set k"
  shows "removeParam ''key'' (base @ ''/private?key='' @ k) = base @ ''/private''"
proof -
  have p: "CHR ''?'' \<notin> set (base @ ''/private'')" using assms(1) by simp
  have e: "base @ ''/private?key='' @ k = (base @ ''/private'') @ CHR ''?'' # (''key='' @ k)" by simp
  have path: "url_path (base @ ''/private?key='' @ k) = base @ ''/private''"
    using url_path_query_append [OF p, of "''key='' @ k"] by (simp only: e)
  have piece: "js_split (CHR ''?'') (base @ ''/private?key='' @ k) ! 1 = ''key='' @ k"
    unfolding e js_split_append_sep [OF p] using assms(2) by simp
  have "js_split (CHR ''&'') (''key='' @ k) = [''key='' @ k]"
    using assms(3) by (intro js_split_no_sep) simp
  then have q: "query_params (base @ ''/private?key='' @ k) = [''key='' @ k]"
    using piece by (simp add: query_params_def)
  have pn: "param_name (''key='' @ k) = ''key''"
    by (simp add: param_name_def hd_js_split)
  show ?thesis using path q pn by (simp add: removeParam_closed)
qed

lemma handshake_first_request:
  assumes "key_param (browser_request base ''/private'') = None"
    and "env_createrequest env (createrequest_body (st_protocol st) (base @ ''/private'')) = Inr k"
  shows "express_handle st (demo_app d) env (browser_request base ''/private'') None =
      (None, [CreateRequest (createrequest_body (st_protocol st) (base @ ''/private'')), RequestAuth k],
       AppRedirect (requestauth_url (st_protocol st) k))"
  using assms
  by (simp add: express_handle_private browser_request_def url_pathname_def ensureAuthenticated_no_key
      route_result_def redirectUrl_def)

lemma handshake_requests:
  assumes k: "k \<noteq> []" "CHR ''&'' \<notin> set k" "CHR ''#'' \<notin> set k" "CHR ''?'' \<notin> set k"
    "CHR ''%'' \<notin> set k" "CHR ''+'' \<notin> set k"
    and base: "CHR ''?'' \<notin> set base"
  shows "key_param (browser_request base ''/private'') = None
    \<and> drop (length base) (tequila_return (base @ ''/private'') k) = ''/private?key='' @ k
    \<and> query_key (browser_request base (''/private?key='' @ k)) = Some (QStr k)
    \<and> key_param (browser_request base (''/private?key='' @ k)) = Some (QStr k)
    \<and> url_pathname (originalUrl (browser_request base (''/private?key='' @ k))) = ''/private''"
proof -
  have qk: "query_key (browser_request base (''/private?key='' @ k)) = Some (QStr k)"
    using parsed_query_key [OF k] by (simp add: query_key_def browser_request_def)
  then show ?thesis
    using k(1) base
    by (simp add: key_param_def query_key_def browser_request_def parsed_query_private
        tequila_return_def url_pathname_def)
qed

text \<open>
  C11 (liveness). The handshake completes end to end: a browser that asks the wired
  application for \<^verbatim>\<open>/private\<close> without a session, follows its redirects, logs in at
  the identity server and is sent back with the key, is shown the private page for the
  profile built from the server's attributes after exactly three requests to the
  application, and not after two (the second ends in a redirect), in both redirect
  policies: with \<open>redirectAfterAuth\<close> off the code also redirects once more, to the URL
  without the key, although the option's documentation (strategy.js lines 19--21) says
  that this second redirect is what the option turns on. The server cooperates (it issues a key without
  \<open>&\<close>, \<open>#\<close> or \<open>?\<close>, returns attributes for it and the session accepts the login),
  and the application's origin is not the identity server's.
\<close>

theorem handshake_through_app:
  assumes k: "k \<noteq> []" "CHR ''&'' \<notin> set k" "CHR ''#'' \<notin> set k" "CHR ''?'' \<notin> set k"
    "CHR ''%'' \<notin> set k" "CHR ''+'' \<notin> set k"
    and base: "CHR ''?'' \<notin> set base"
    and foreign: "take (length base) (requestauth_url (st_protocol st) k) \<noteq> base"
    and create: "env_createrequest env (createrequest_body (st_protocol st) (base @ ''/private'')) = Inr k"
    and fetch: "env_fetchattributes env (QStr k) = Inr r"
    and login: "env_login env (teqResult2User r) = None"
    and idp: "idp (requestauth_url (st_protocol st) k) = tequila_return (base @ ''/private'') k"
  shows "browse st d env idp base 2 ''/private'' None = None
    \<and> browse st d env idp base 3 ''/private'' None =
           Some (Some (teqResult2User r), Render ''private'' (Some (teqResult2User r)))"
proof -
  let ?u = "teqResult2User r"
  let ?r1 = "browser_request base ''/private''"
  let ?r2 = "browser_request base (''/private?key='' @ k)"
  note req = handshake_requests [OF k base]
  have s1: "express_handle st (demo_app d) env ?r1 None =
      (None, [CreateRequest (createrequest_body (st_protocol st) (base @ ''/private'')), RequestAuth k],
       AppRedirect (requestauth_url (st_protocol st) k))"
    using req create by (intro handshake_first_request) simp_all
  have ar: "auth_response st ?r2 = Redirect (base @ ''/private'')"
    using req k(1) removeParam_key_only [OF base k(4) k(2)]
    by (simp add: auth_response_def redirectUrl_def browser_request_def)
  have s2: "express_handle st (demo_app d) env ?r2 None =
      (Some ?u, [FetchAttributes (QStr k), Login ?u], AppRedirect (base @ ''/private''))"
    using req fetch login ar
    by (simp add: express_handle_private ensureAuthenticated_key route_result_def)
  have s3: "express_handle st (demo_app d) env ?r1 (Some ?u) = (Some ?u, [], Render ''private'' (Some ?u))"
    by (simp add: express_handle_private browser_request_def url_pathname_def ensureAuthenticated_def
        route_result_def)
  show ?thesis
    using s1 s2 s3 foreign idp req
    by (simp add: numeral_3_eq_3 numeral_2_eq_2 Let_def)
qed

theorem handshake_through_app_witness:
  "browse demo_strategy ''/app'' demo_env
     (\<lambda>_. tequila_return ''http://localhost:3000/private'' ''k123'') ''http://localhost:3000'' 2
     ''/private'' None = None
   \<and> browse demo_strategy ''/app'' demo_env
     (\<lambda>_. tequila_return ''http://localhost:3000/private'' ''k123'') ''http://localhost:3000'' 3
     ''/private'' None =
   Some (Some (teqResult2User [(''user'', ''lecom''), (''displayname'', ''Claude Lecommandeur'')]),
         Render ''private''
           (Some (teqResult2User [(''user'', ''lecom''), (''displayname'', ''Claude Lecommandeur'')])))"
proof -
  have foreign: "take (length ''http://localhost:3000'')
      (requestauth_url (st_protocol demo_strategy) ''k123'') \<noteq> ''http://localhost:3000''"
    by (simp add: requestauth_url_def tequila_base_def demo_strategy_def TequilaStrategy_def
        no_opts_def new_Protocol_def)
  show ?thesis
    by (rule handshake_through_app [OF _ _ _ _ _ _ _ foreign]) (simp_all add: demo_env_def)
qed


text \<open>
  C22 (error). A failed key exchange ends the handshake visibly and for good: when the
  identity server issues a key but then refuses to exchange it, the browser's second
  request ends in Express's error handler with that error, the session is still
  unauthenticated, and the browser is not redirected again, however many further requests
  it would be willing to make.
\<close>

theorem handshake_fetch_error:
  assumes k: "k \<noteq> []" "CHR ''&'' \<notin> set k" "CHR ''#'' \<notin> set k" "CHR ''?'' \<notin> set k"
    "CHR ''%'' \<notin> set k" "CHR ''+'' \<notin> set k"
    and base: "CHR ''?'' \<notin> set base"
    and foreign: "take (length base) (requestauth_url (st_protocol st) k) \<noteq> base"
    and create: "env_createrequest env (createrequest_body (st_protocol st) (base @ ''/private'')) = Inr k"
    and fetch: "env_fetchattributes env (QStr k) = Inl e"
    and idp: "idp (requestauth_url (st_protocol st) k) = tequila_return (base @ ''/private'') k"
  shows "browse st d env idp base (Suc (Suc n)) ''/private'' None = Some (None, AppError e)"
proof -
  note req = handshake_requests [OF k base]
  have s1: "express_handle st (demo_app d) env (browser_request base ''/private'') None =
      (None, [CreateRequest (createrequest_body (st_protocol st) (base @ ''/private'')), RequestAuth k],
       AppRedirect (requestauth_url (st_protocol st) k))"
    using req create by (intro handshake_first_request) simp_all
  have s2: "express_handle st (demo_app d) env (browser_request base (''/private?key='' @ k)) None =
      (None, [FetchAttributes (QStr k)], AppError e)"
    using req fetch by (simp add: express_handle_private ensureAuthenticated_key route_result_def)
  show ?thesis
    using s1 s2 foreign idp req by (simp add: Let_def)
qed

theorem handshake_fetch_error_witness:
  "browse demo_strategy ''/app'' (demo_env\<lparr>env_fetchattributes := (\<lambda>_. Inl ProtocolError)\<rparr>)
     (\<lambda>_. tequila_return ''http://localhost:3000/private'' ''k123'') ''http://localhost:3000'' 5
     ''/private'' None = Some (None, AppError ProtocolError)"
proof -
  have foreign: "take (length ''http://localhost:3000'')
      (requestauth_url (st_protocol demo_strategy) ''k123'') \<noteq> ''http://localhost:3000''"
    by (simp add: requestauth_url_def tequila_base_def demo_strategy_def TequilaStrategy_def
        no_opts_def new_Protocol_def)
  have "browse demo_strategy ''/app'' (demo_env\<lparr>env_fetchattributes := (\<lambda>_. Inl ProtocolError)\<rparr>)
     (\<lambda>_. tequila_return ''http://localhost:3000/private'' ''k123'') ''http://localhost:3000'' (Suc (Suc 3))
     ''/private'' None = Some (None, AppError ProtocolError)"
    by (rule handshake_fetch_error [OF _ _ _ _ _ _ _ foreign]) (simp_all add: demo_env_def)
  then show ?thesis by (simp add: numeral_eq_Suc)
qed

end
