(* ===== verification/Spec2Isabelle.thy ===== *)
theory Spec2Isabelle
  imports Logging Passport Handshake "HOL-Library.Sublist"
begin

text \<open>
  \<^bold>\<open>A verification development of passport-tequila.\<close>
  The repository is the client side of the Tequila single-sign-on handshake, packaged as a
  Passport strategy (\<^verbatim>\<open>src/lib/passport-tequila/strategy.js\<close>), and an example Express
  application that uses it (\<^verbatim>\<open>src/examples/express-passport/app.js\<close>). A request to a
  protected page enters the gate \<open>ensureAuthenticated\<close>; an authenticated session passes
  through; otherwise the gate asks the identity server for a key (\<^verbatim>\<open>createrequest\<close>) and
  redirects the browser to log in, or, when the browser comes back with \<open>?key=\<close>,
  exchanges the key for the user's attributes (\<^verbatim>\<open>fetchattributes\<close>), maps them to a
  profile (\<open>teqResult2User\<close>), logs the profile into the session and redirects to the URL
  without the key (\<open>removeParam\<close>). \<open>globalLogout\<close> drops the session and redirects to
  the server's logout.

  \<^bold>\<open>Theories.\<close>
  \<^item> \<open>Prelude\<close>: the JavaScript primitives the code calls (\<open>split\<close> with a one-character
    separator, \<open>join\<close>, \<open>splice(i, 1)\<close>, string truthiness, ASCII lower case) and their
    round trips.
  \<^item> \<open>RemoveParam\<close>: \<open>removeParam\<close> (strategy.js 121--144). The backward splice loop is
    the recursion \<open>strip_params\<close>, which \<open>removeParam\<close> uses, and also, as written, the
    \<open>while_option\<close> loop \<open>removeParam_loop\<close> over a signed index. Lemmas: the loop
    as written stops and agrees with \<open>strip_params\<close> (C27, by \<open>measure_while_option_Some\<close>
    with the measure \<open>i + 1\<close> and \<open>while_option_rule\<close> with the invariant \<open>loop_inv\<close>);
    the recursion equals a filter (C6); no parameter named \<open>key\<close> survives (C5); the result
    is never longer than the argument (C28); the code refines the specification's sanitizer
    \<open>removeParam_spec\<close> on URLs with at most one \<open>?\<close> (C7), and on every URL with a second
    \<open>?\<close> in its query it keeps the parameters after that \<open>?\<close> glued to the previous
    value (C15); the identity on URLs without the parameter, or without a query (C23); it
    is idempotent except when a single empty token survives, which leaves a trailing
    \<open>?\<close> (C24). The specification's examples are checked as a lemma.
  \<^item> \<open>UserMapper\<close>: \<open>teqResult2User\<close> (strategy.js 87--115) with its lazily created
    \<open>name\<close> and \<open>tequila\<close> objects and the \<open>forEach\<close> copy loop \<open>copy_attrs\<close>.
    Lemmas: the verbatim copy (C8), every field (C9), and \<open>user_wf\<close> of every profile built.
  \<^item> \<open>Protocol\<close>: the constructor \<open>TequilaStrategy\<close> (strategy.js 30--41) and its
    defaults (C13); whatever the options, the protocol object is well formed,
    \<open>protocol_wf\<close> (C29). The options object is also modelled as JavaScript sees it, a
    dictionary read by property name (\<open>opts_of_object\<close>, which reads a value of the wrong
    type as absent): the connection options are read under the names \<open>tequila_host\<close>,
    \<open>tequila_port\<close>, ..., so options given under the specification's names are ignored
    (C33). \<open>protocol.js\<close> is not among the sources: the \<open>Protocol\<close> object's
    defaults, the \<^verbatim>\<open>createrequest\<close> parameters and the redirect URLs are modelled from
    the specification (sections 4.1, 6), and the server's and Passport's answers are the
    fields of the interface record \<open>gate_env\<close>, universally quantified in every lemma.
  \<^item> \<open>Gate\<close>: \<open>ensureAuthenticated\<close> (strategy.js 44--77) composed of its three
    callbacks, and \<open>globalLogout\<close> (79--84). One call maps (strategy, answers, request,
    session) to (session, calls made, response). The session's life is the inductive
    \<open>gate_step\<close> with its \<open>reachable\<close> states. Lemmas: no bypass (C1), errors surfaced
    (C2), login only after a successful exchange (C3), the session invariant (C4), the calls
    made in each branch, the pass-through of an authenticated session included (C10),
    logout (C12), the empty key (C16), an answer without \<open>user\<close> logs in a profile without
    \<open>id\<close>, against the specification (C17), the repeated key (C25), an authenticated
    session never switches user (C26, by rule inversion), at most one call to the identity
    server and one session write per request (C30). The example application's strategy
    (app.js 26--30) gives the concrete runs the witnesses use.
  \<^item> \<open>App\<close>: the example application (app.js 18--23 and 50--66): session serialisation,
    the four routes as one handler \<open>app_handle\<close>, with paths matched as Express's
    router does by default (\<open>route_match\<close>: ASCII case-insensitive, optional trailing
    slash), and runs of requests \<open>app_run\<close>. Lemmas: the private page only for the
    session's user (C19), runs refine the gate's step relation (C20), rendered users are
    well formed (C21); an authenticated browser stays so along any run that avoids the
    logout routes, in any spelling Express routes to them (C34).
  \<^item> \<open>Logging\<close>: the \<open>debug\<close> logger (strategy.js 5) and the four messages of
    \<open>ensureAuthenticated\<close> (lines 46, 48, 67, 72), as \<open>ensureAuthenticated_traced\<close>,
    which returns its messages beside the gate's result; whether a message is written
    depends on the \<^verbatim>\<open>DEBUG\<close> variable (\<open>debug_enabled\<close>: comma or space separated
    patterns, \<open>*\<close> wildcards, \<open>-\<close> exclusions, from the \<open>debug\<close> package's
    documentation). Lemmas: the messages do not change the gate's behaviour; whenever
    \<^verbatim>\<open>DEBUG\<close> enables the namespace, every key sent to \<^verbatim>\<open>fetchattributes\<close> is
    written to the log in clear, which the specification forbids, and otherwise nothing is
    written (C31).
  \<^item> \<open>Passport\<close>: the strategy object with its prototype chain, looked up property by
    property: its own \<open>protocol\<close>, \<open>ensureAuthenticated\<close> and \<open>globalLogout\<close>, the
    \<open>name\<close> of \<open>Strategy.prototype\<close> (strategy.js 119) and, through
    \<open>util.inherits\<close> (117), Passport's base \<open>authenticate\<close>; \<open>passport.use\<close>
    (app.js 31) and \<open>passport.authenticate\<close>, modelled from Passport's documented
    behaviour. A lemma shows that an instance is registered under \<open>tequila\<close> and that
    \<open>passport.authenticate('tequila')\<close> fails, as the class does not override
    \<open>authenticate\<close>; the example application does not call it.
  \<^item> \<open>Express\<close>: the wiring of app.js (lines 33--68): the \<open>app.set\<close>,
    \<open>app.use\<close> and \<open>app.get\<close> calls in order (\<open>demo_app_calls\<close>), building the
    router's list of layers; the router \<open>run_layers\<close>, in which \<open>expressSession\<close>
    loads the stored session and \<open>passport.session()\<close> restores \<open>req.user\<close> from it,
    modelled from the libraries' documented behaviour; the port \<open>process.env.PORT || 3000\<close>
    as a JavaScript value. Lemma: the wired application handles every request as
    \<open>app_handle\<close> (C32), so C19--C21 and C34 hold of it.
  \<^item> \<open>QueryParser\<close>: how Express computes \<open>req.query\<close> from the URL (\<open>url.parse\<close> and
    the \<open>qs\<close> library, modelled from their documented behaviour: \<open>&\<close>-separated
    tokens, \<open>+\<close> as space and percent-decoding of names and values, a malformed escape
    left as it is, repeated names collected in an array). The parser reads a name from
    exactly the tokens the sanitizer gives that name when the URL has no escapes and no
    brackets, so a request for the URL \<open>removeParam\<close> made carries no key for the gate
    (C35); a key sent percent-encoded is not removed by the sanitizer but read by Express
    (lemma \<open>encoded_key_survives\<close>).
  \<^item> \<open>Handshake\<close>: the whole system as a browser meets it. \<open>browse\<close> is a browser that
    requests paths of the wired application (\<open>browser_request\<close>, with \<open>req.query\<close>
    parsed from the path), follows redirects on the application's origin, and goes through
    the identity server's login otherwise, which sends it back with the key
    (\<open>tequila_return\<close>, from the specification, section 4.2). The number of requests
    is its fuel: the lemma shows that three are enough, not only that the result is right
    if one comes. Lemmas: with a cooperating server the private page is shown for the
    mapped profile after exactly three requests and not after two, in both redirect
    policies (C11); when the server refuses the key, the browser ends on the error handler
    after two requests, unauthenticated and not redirected again (C22).
  \<^item> This theory: the properties that span the gate and the sanitizer: the post-login
    redirect carries no key, and goes in each policy to the target the code computes,
    which is not what the option's documentation describes (C18); every redirect of the
    gate goes to the identity server's login or starts with the request's own scheme,
    host and \<open>/\<close> (C14).

  \<^bold>\<open>Modelling choices.\<close> Strings are character lists; \<open>undefined\<close> is \<open>None\<close>; JavaScript
  truthiness is written out (\<open>js_truthy_str\<close>, \<open>js_truthy_q\<close>), since the code's
  tests \<open>if (x)\<close> treat the empty string as absent. An attribute dictionary is an
  association list (\<open>Object.keys\<close> order). Asynchronous callbacks are sequential
  composition; the list of calls records their order. The loops are over a list or an
  index: \<open>copy_attrs\<close> and \<open>strip_params\<close> are structural recursions, and the literal
  \<open>for\<close> loop of \<open>removeParam\<close> is a \<open>while_option\<close>, whose termination is a theorem
  (C27) rather than an assumption, so the program's loops need no fuel. The only fuel
  is the browser's number of requests in \<open>browse\<close>: a browser may be redirected
  forever, and C11 proves that three requests suffice for the handshake.
  Nothing in the program does machine arithmetic.

  \<^bold>\<open>Not modelled.\<close> The network transport of \<open>protocol.js\<close> (timeouts, TLS); the
  HTTP method (every request is a GET, the only method the application routes); the
  session store's persistence and Passport's internals beyond what is modelled (the
  session is a \<open>tequila_user option\<close>, a failed \<open>req.login\<close> an answer of
  \<open>gate_env\<close>); the bracket syntax of \<open>qs\<close> (\<open>a[]=\<close>, \<open>a[b]=\<close>) and its limits on
  the number of parameters; \<^verbatim>\<open>DEBUG\<close> separators other than comma and space; the
  rendered views; the middleware that do not touch the session or the user (request
  logging, cookie and body parsing, method override: they are layers without effect);
  \<open>app.listen\<close> and \<open>console.log\<close> (I/O); and the \<open>require\<close> lines and comments of both
  files, which have no behaviour. The URL encoding of the return URL in the logout
  redirect and of the key in the \<^verbatim>\<open>requestauth\<close> redirect belong to \<open>protocol.js\<close>,
  which is not among the sources, and are not modelled.
\<close>

lemma url_pathname_no_question: "CHR ''?'' \<notin> set (url_pathname u)"
  by (auto simp: url_pathname_def dest: set_takeWhileD)

lemma url_path_append_base:
  "CHR ''?'' \<notin> set b \<Longrightarrow> prefix (b @ ''/'') (url_path (b @ CHR ''/'' # u))"
  unfolding url_path_def by (subst takeWhile_append2) auto

lemma removeParam_prefix: "prefix (url_path u) (removeParam key u)"
  by (simp add: removeParam_closed Let_def)

text \<open>
  C18 (safety, divergence). After a successful handshake the browser is redirected to a
  URL that carries no \<open>key\<close> parameter, in both redirect policies, provided the scheme
  and host of the request contain no \<open>?\<close>: the one-time key does not stay in the address
  bar, the history or the \<open>Referer\<close> of the next request. The theorem also gives the
  target in each policy, which is where the code departs from the documentation of
  \<open>redirectAfterAuth\<close> (strategy.js lines 19--21: the option turns on "redirecting once
  more" to get rid of \<open>?key=\<close>). The code redirects in both policies (lines 57--60): with
  the option on, to the bare path, dropping the whole query; with it off, to the URL
  without the \<open>key\<close> parameter, keeping the rest of the query.
\<close>

theorem post_login_redirect_strips_key:
  assumes run: "ensureAuthenticated st env req None = (Some u, calls, Redirect url)"
    and base: "CHR ''?'' \<notin> set (req_base req)"
  shows "''key'' \<notin> param_name ` set (url_query_tokens url)
    \<and> url = (if opt_redirectAfterAuth (st_opts st)
             then redirectUrl (req_base req) (url_pathname (originalUrl req))
             else removeParam ''key'' (redirectUrl (req_base req) (originalUrl req)))"
proof -
  from ensureAuthenticated_login_response [OF run]
  have resp: "Redirect url = auth_response st req" and key: "js_truthy_q (query_key req)"
    by simp_all
  show ?thesis
  proof (cases "opt_redirectAfterAuth (st_opts st)")
    case True
    with resp have u: "url = redirectUrl (req_base req) (url_pathname (originalUrl req))"
      by (simp add: auth_response_def)
    then have "url = req_base req @ url_pathname (originalUrl req)"
      by (simp add: redirectUrl_def)
    with base have "url_query_tokens url = []"
      using url_pathname_no_question [of "originalUrl req"] by (simp add: url_query_tokens_def)
    with True u show ?thesis by simp
  next
    case False
    with resp key have "url = removeParam ''key'' (redirectUrl (req_base req) (originalUrl req))"
      by (simp add: auth_response_def)
    with False show ?thesis by (auto simp: url_query_tokens_removeParam)
  qed
qed

theorem post_login_redirect_strips_key_witness:
  "CHR ''?'' \<notin> set (req_base demo_back)
   \<and> ''key'' \<notin> param_name ` set (url_query_tokens ''http://localhost:3000/private?lang=fr'')"
proof -
  have b: "CHR ''?'' \<notin> set (req_base demo_back)" by (simp add: demo_back_def)
  show ?thesis using conjunct1 [OF post_login_redirect_strips_key [OF demo_back_run b]] b by simp
qed

text \<open>
  C14 (safety). No open redirect: every redirect the gate issues goes either to the
  identity server's login endpoint (\<open>requestauth_url\<close>, on the configured server) or back
  to the scheme and host the request arrived at followed by \<open>/\<close>, so that the host of the
  target is the request's own, whatever the rest of the request's URL and the server's
  answers. The request target is an absolute path (the origin form HTTP requires of a
  request to an origin server) and the scheme and host contain no \<open>?\<close>. That the target
  is built as scheme and host followed by the path is \<open>protocol.redirectUrl\<close>, which is
  modelled from the specification; what the theorem shows of the code is that both
  redirect policies, and \<open>removeParam\<close> in particular, keep the leading path, so the
  authority of the URL is never changed by the request's query.
\<close>

theorem ensureAuthenticated_redirect_targets:
  assumes run: "ensureAuthenticated st env req s = (s', calls, Redirect url)"
    and base: "CHR ''?'' \<notin> set (req_base req)"
    and path: "take 1 (originalUrl req) = ''/''"
  shows "(\<exists>key. url = requestauth_url (st_protocol st) key) \<or> prefix (req_base req @ ''/'') url"
proof (cases "s = None")
  case False
  with run show ?thesis by (auto simp: ensureAuthenticated_def)
next
  case True
  obtain r where orig: "originalUrl req = CHR ''/'' # r"
    using path by (cases "originalUrl req") auto
  show ?thesis
  proof (cases "key_param req")
    case None
    with run True show ?thesis
      by (auto simp: ensureAuthenticated_no_key Let_def split: sum.splits)
  next
    case (Some k)
    have "auth_response st req = Redirect url \<Longrightarrow> prefix (req_base req @ ''/'') url"
    proof -
      assume a: "auth_response st req = Redirect url"
      show ?thesis
      proof (cases "opt_redirectAfterAuth (st_opts st)")
        case True
        with a orig show ?thesis by (auto simp: auth_response_def redirectUrl_def url_pathname_def)
      next
        case False
        with a have "url = removeParam ''key'' (req_base req @ CHR ''/'' # r)"
          by (auto simp: auth_response_def redirectUrl_def orig split: if_splits)
        then show ?thesis
          using url_path_append_base [OF base, of r]
            removeParam_prefix [of "req_base req @ CHR ''/'' # r" "''key''"]
          by (auto intro: prefix_order.trans)
      qed
    qed
    with run True Some show ?thesis
      by (auto simp: ensureAuthenticated_key split: sum.splits option.splits)
  qed
qed

theorem ensureAuthenticated_redirect_targets_witness:
  "CHR ''?'' \<notin> set (req_base demo_back) \<and> take 1 (originalUrl demo_back) = ''/''
   \<and> prefix (req_base demo_back @ ''/'') ''http://localhost:3000/private?lang=fr''"
proof -
  have b: "CHR ''?'' \<notin> set (req_base demo_back)" by (simp add: demo_back_def)
  have p: "take 1 (originalUrl demo_back) = ''/''" by (simp add: demo_back_def)
  show ?thesis
    using ensureAuthenticated_redirect_targets [OF demo_back_run b p] b p
    by (simp add: demo_back_def requestauth_url_def demo_strategy_def TequilaStrategy_def no_opts_def
        new_Protocol_def tequila_base_def)
qed

end
